theory Spec2Isabelle
  imports Complex_Main
begin

section \<open>Data model (src/types.ts)\<close>

text \<open>
  The values of JavaScript numbers are real numbers (no NaN, no infinity, no signed zero).
  The renderers are modelled with exact arithmetic. The pointer handlers, whose results are
  stored and fed into the next gesture, take the rounding of the arithmetic as a parameter
  \<open>rnd\<close>: every \<^verbatim>\<open>+\<close> and \<^verbatim>\<open>-\<close> returns \<open>rnd\<close> of the exact result. In the browser \<open>rnd\<close> is
  \<open>binary64\<close> (below). Optional fields (\<^verbatim>\<open>width?: number\<close>) are options. Page rotations
  and page indices are integers and naturals.
\<close>

datatype ann_type = Rect | Arrow | Text | Highlight | Image

datatype font_weight = Normal | Bold

text \<open>\<^verbatim>\<open>ToolMode = 'select' | 'rect' | 'arrow' | 'text' | 'highlight' | 'image'\<close>: the
  select tool, or the tool of one annotation kind.\<close>

datatype tool_mode = Select | Shape ann_type

record annotation =
  ann_id :: string
  ann_type :: ann_type
  ann_x :: real
  ann_y :: real
  ann_width :: "real option"
  ann_height :: "real option"
  ann_text :: "string option"
  ann_color :: string
  ann_fontSize :: "real option"
  ann_fontWeight :: "font_weight option"
  ann_imageData :: "string option"

record pdf_page_data =
  pg_id :: string
  pg_sourcePdfId :: string
  pg_pageIndex :: nat
  pg_rotation :: int
  pg_thumbnailUrl :: string
  pg_originalWidth :: real
  pg_originalHeight :: real
  pg_annotations :: "annotation list"

text \<open>An \<^verbatim>\<open>ArrayBuffer\<close> is a reference into a store of buffers (see below);
  \<^verbatim>\<open>SourcePDF.data\<close> holds such a reference.\<close>

type_synonym buf_ref = nat

record source_pdf =
  src_id :: string
  src_name :: string
  src_data :: buf_ref

section \<open>JavaScript operators used by the code\<close>

text \<open>\<^verbatim>\<open>v || d\<close> on an optional number: \<^verbatim>\<open>undefined\<close> and \<^verbatim>\<open>0\<close> are falsy.\<close>

definition numOr :: "real option \<Rightarrow> real \<Rightarrow> real" where
  "numOr v d = (case v of None \<Rightarrow> d | Some r \<Rightarrow> if r = 0 then d else r)"

text \<open>Truthiness of an optional string: \<^verbatim>\<open>undefined\<close>, \<^verbatim>\<open>null\<close> and \<^verbatim>\<open>''\<close> are falsy.\<close>

definition truthy :: "string option \<Rightarrow> bool" where
  "truthy v = (case v of None \<Rightarrow> False | Some s \<Rightarrow> s \<noteq> [])"

text \<open>\<^verbatim>\<open>s || d\<close> on strings.\<close>

definition strOr :: "string option \<Rightarrow> string \<Rightarrow> string" where
  "strOr v d = (if truthy v then the v else d)"

text \<open>\<^verbatim>\<open>Math.atan2(y, x)\<close> on reals: the angle in \<open>(-\<pi>, \<pi>]\<close> of the vector \<open>(x, y)\<close>,
  and \<open>0\<close> for the zero vector.\<close>

definition atan2 :: "real \<Rightarrow> real \<Rightarrow> real" where
  "atan2 y x =
     (if 0 < x then arctan (y / x)
      else if x < 0 then (if 0 \<le> y then arctan (y / x) + pi else arctan (y / x) - pi)
      else if 0 < y then pi / 2
      else if y < 0 then - (pi / 2)
      else 0)"

text \<open>
  The rounding of IEEE 754 binary64 arithmetic, round to nearest with ties to even, for
  results of magnitude below \<open>2^1024\<close>: \<open>scale2\<close> writes \<open>|x|\<close> as \<open>m * u\<close> with \<open>u\<close> a
  power of two and \<open>2^52 \<le> m < 2^53\<close> (or \<open>u = 2^-1074\<close> for a subnormal number), and
  \<open>m\<close> is rounded to an integer. The first argument of \<open>scale2\<close> bounds the number of
  steps; 2200 are enough for every such \<open>x\<close>.
\<close>

definition roundEven :: "real \<Rightarrow> int" where
  "roundEven r =
     (let f = \<lfloor>r\<rfloor>; d = r - of_int f
      in if d < 1 / 2 then f else if 1 / 2 < d then f + 1 else if even f then f else f + 1)"

fun scale2 :: "nat \<Rightarrow> real \<Rightarrow> real \<Rightarrow> real \<times> real" where
  "scale2 0 m u = (m, u)"
| "scale2 (Suc n) m u =
     (if 2 ^ 53 \<le> m then scale2 n (m / 2) (u * 2)
      else if m < 2 ^ 52 \<and> 1 / 2 ^ 1074 < u then scale2 n (m * 2) (u / 2)
      else (m, u))"

definition binary64 :: "real \<Rightarrow> real" where
  "binary64 x =
     (if x = 0 then 0
      else (let (m, u) = scale2 2200 \<bar>x\<bar> 1 in sgn x * of_int (roundEven m) * u))"

text \<open>\<^verbatim>\<open>a % b\<close> on integers: the remainder of the division truncated towards zero.\<close>

definition jsRem :: "int \<Rightarrow> int \<Rightarrow> int" where
  "jsRem a b = sgn a * (\<bar>a\<bar> mod \<bar>b\<bar>)"

section \<open>Box normalization\<close>

text \<open>
  The same six lines stand in the export flattener (pdfUtils.ts 126--134), in the editor's
  \<^verbatim>\<open>renderAnnotation\<close> (AnnotationEditor.tsx 306--313) and in the grid thumbnail overlay
  (App.tsx 420--425):
  \<^verbatim>\<open>
  let boxX = ann.x || 0;  let boxY = ann.y || 0;
  let boxW = ann.width || 0;  let boxH = ann.height || 0;
  if (boxW < 0) { boxX += boxW; boxW = Math.abs(boxW); }
  if (boxH < 0) { boxY += boxH; boxH = Math.abs(boxH); }
  \<close>
  The model keeps the annotation that is read beside the four locals that are written.
\<close>

record norm_locals =
  nl_ann :: annotation
  boxX :: real
  boxY :: real
  boxW :: real
  boxH :: real

definition normalizeBox :: "annotation \<Rightarrow> norm_locals" where
  "normalizeBox ann =
     (let l0 = \<lparr>nl_ann = ann,
                boxX = numOr (Some (ann_x ann)) 0, boxY = numOr (Some (ann_y ann)) 0,
                boxW = numOr (ann_width ann) 0, boxH = numOr (ann_height ann) 0\<rparr>;
          l1 = (if boxW l0 < 0 then l0\<lparr>boxX := boxX l0 + boxW l0, boxW := \<bar>boxW l0\<bar>\<rparr> else l0);
          l2 = (if boxH l1 < 0 then l1\<lparr>boxY := boxY l1 + boxH l1, boxH := \<bar>boxH l1\<bar>\<rparr> else l1)
      in l2)"


section \<open>Export flattener: drawing one annotation (src/utils/pdfUtils.ts, generateFinalPDF)\<close>

type_synonym point = "real \<times> real"

text \<open>What is drawn onto the 2D canvas, with the context attributes in force at the call.\<close>

datatype draw_op =
    FillRect (fr_fillStyle: string) (fr_globalAlpha: real) real real real real
  | StrokeRect string real real real real real
  | FillText string font_weight real string real real
  | StrokeLine string real point point
  | FillPath string "point list"
  | DrawImage string real real real real

text \<open>The arrow branch (pdfUtils.ts 153--180): the stroked shaft and the filled head.\<close>

definition exportArrow :: "annotation \<Rightarrow> draw_op list" where
  "exportArrow ann =
     (let fromX = ann_x ann;
          fromY = ann_y ann;
          toX = ann_x ann + numOr (ann_width ann) 0;
          toY = ann_y ann + numOr (ann_height ann) 0;
          headLen = 20;
          angle = atan2 (toY - fromY) (toX - fromX)
      in [StrokeLine (ann_color ann) 5 (fromX, fromY) (toX, toY),
          FillPath (ann_color ann)
            [(toX, toY),
             (toX - headLen * cos (angle - pi / 6), toY - headLen * sin (angle - pi / 6)),
             (toX - headLen * cos (angle + pi / 6), toY - headLen * sin (angle + pi / 6))]])"

text \<open>
  The body of the loop over a page's annotations (pdfUtils.ts 122--191). An image annotation
  waits for the image to load: \<open>imageLoads\<close> says whether \<^verbatim>\<open>img.onload\<close> ever fires for
  a data URL; when it does not, the promise never resolves and the result is \<open>None\<close>.
\<close>

definition exportDrawAnn :: "(string \<Rightarrow> bool) \<Rightarrow> annotation \<Rightarrow> draw_op list option" where
  "exportDrawAnn imageLoads ann =
     (let l = normalizeBox ann in
      if ann_type ann = Highlight then
        Some [FillRect (ann_color ann) 0.4 (boxX l) (boxY l) (boxW l) (boxH l)]
      else if ann_type ann = Rect then
        Some [StrokeRect (ann_color ann) 4 (boxX l) (boxY l) (boxW l) (boxH l)]
      else if ann_type ann = Text \<and> truthy (ann_text ann) then
        Some [FillText (ann_color ann)
                (if ann_fontWeight ann = Some Bold then Bold else Normal)
                (numOr (ann_fontSize ann) 32) (the (ann_text ann)) (ann_x ann) (ann_y ann)]
      else if ann_type ann = Arrow then
        Some (exportArrow ann)
      else if ann_type ann = Image \<and> truthy (ann_imageData ann) then
        (if imageLoads (the (ann_imageData ann))
         then Some [DrawImage (the (ann_imageData ann)) (boxX l) (boxY l) (boxW l) (boxH l)]
         else None)
      else Some [])"

fun exportDrawAll :: "(string \<Rightarrow> bool) \<Rightarrow> annotation list \<Rightarrow> draw_op list option" where
  "exportDrawAll imageLoads [] = Some []"
| "exportDrawAll imageLoads (ann # anns) =
     (case exportDrawAnn imageLoads ann of
        None \<Rightarrow> None
      | Some ops \<Rightarrow>
          (case exportDrawAll imageLoads anns of
             None \<Rightarrow> None
           | Some rest \<Rightarrow> Some (ops @ rest)))"

section \<open>Editor overlay and grid thumbnail overlay\<close>

text \<open>The absolutely positioned element of one annotation: its box in percent of the page
  (\<open>None\<close> for \<^verbatim>\<open>'auto'\<close>) and its content.\<close>

datatype content =
    ArrowSvg string point point "point list"
  | ArrowBar string real real
  | TextDiv string real font_weight "string option"
  | ImgEl string
  | HighlightDiv (hl_backgroundColor: string) (hl_opacity: real)
  | RectDiv string real
  | NoContent

record overlay_el =
  el_left :: real
  el_top :: real
  el_width :: "real option"
  el_height :: "real option"
  el_content :: content

text \<open>\<^verbatim>\<open>renderContent\<close> of \<^verbatim>\<open>renderAnnotation\<close> (AnnotationEditor.tsx 351--411).\<close>

definition renderContent :: "real \<Rightarrow> annotation \<Rightarrow> content" where
  "renderContent zoom ann =
     (let l = normalizeBox ann in
      if ann_type ann = Arrow then
        (let rawX = numOr (Some (ann_x ann)) 0;
             rawY = numOr (Some (ann_y ann)) 0;
             rawW = numOr (ann_width ann) 0;
             rawH = numOr (ann_height ann) 0;
             x1 = rawX - boxX l;
             y1 = rawY - boxY l;
             x2 = (rawX + rawW) - boxX l;
             y2 = (rawY + rawH) - boxY l;
             headLen = 20 * (1 / zoom * 0.5 + 0.5);
             angle = atan2 (y2 - y1) (x2 - x1);
             ax1 = x2 - headLen * cos (angle - pi / 6);
             ay1 = y2 - headLen * sin (angle - pi / 6);
             ax2 = x2 - headLen * cos (angle + pi / 6);
             ay2 = y2 - headLen * sin (angle + pi / 6)
         in ArrowSvg (ann_color ann) (x1, y1) (x2, y2) [(x2, y2), (ax1, ay1), (ax2, ay2)])
      else if ann_type ann = Text then
        TextDiv (ann_color ann) (numOr (ann_fontSize ann) 32 * zoom)
          (case ann_fontWeight ann of None \<Rightarrow> Normal | Some fw \<Rightarrow> fw) (ann_text ann)
      else if ann_type ann = Image \<and> truthy (ann_imageData ann) then
        ImgEl (the (ann_imageData ann))
      else if ann_type ann = Highlight then
        HighlightDiv (ann_color ann) 0.3
      else if ann_type ann = Rect then
        RectDiv (ann_color ann) 4
      else NoContent)"

text \<open>\<^verbatim>\<open>renderAnnotation\<close> (AnnotationEditor.tsx 302--433): position and content of the
  element; the selection outline, the handles and the delete button are left out.\<close>

definition renderAnnotation :: "pdf_page_data \<Rightarrow> real \<Rightarrow> annotation \<Rightarrow> overlay_el" where
  "renderAnnotation page zoom ann =
     (let l = normalizeBox ann;
          isText = (ann_type ann = Text)
      in \<lparr>el_left = boxX l / pg_originalWidth page * 100,
          el_top = boxY l / pg_originalHeight page * 100,
          el_width = (if isText then None else Some (boxW l / pg_originalWidth page * 100)),
          el_height = (if isText then None else Some (boxH l / pg_originalHeight page * 100)),
          el_content = renderContent zoom ann\<rparr>)"

text \<open>The grid thumbnail overlay of one annotation (App.tsx 419--472); \<open>None\<close> when nothing is
  rendered.\<close>

definition thumbnailAnnotation :: "pdf_page_data \<Rightarrow> annotation \<Rightarrow> overlay_el option" where
  "thumbnailAnnotation page ann =
     (let l = normalizeBox ann;
          left = boxX l / pg_originalWidth page * 100;
          top = boxY l / pg_originalHeight page * 100;
          w = boxW l / pg_originalWidth page * 100;
          h = boxH l / pg_originalHeight page * 100
      in if ann_type ann = Rect then
           Some \<lparr>el_left = left, el_top = top, el_width = Some w, el_height = Some h,
                 el_content = RectDiv (ann_color ann) 2\<rparr>
         else if ann_type ann = Highlight then
           Some \<lparr>el_left = left, el_top = top, el_width = Some w, el_height = Some h,
                 el_content = HighlightDiv (ann_color ann) 0.3\<rparr>
         else if ann_type ann = Text then
           Some \<lparr>el_left = ann_x ann / pg_originalWidth page * 100,
                 el_top = ann_y ann / pg_originalHeight page * 100,
                 el_width = None, el_height = None,
                 el_content = TextDiv (ann_color ann) 10
                   (case ann_fontWeight ann of None \<Rightarrow> Normal | Some fw \<Rightarrow> fw) (ann_text ann)\<rparr>
         else if ann_type ann = Arrow then
           (let startX = ann_x ann / pg_originalWidth page * 100;
                startY = ann_y ann / pg_originalHeight page * 100;
                dx = numOr (ann_width ann) 0 / pg_originalWidth page * 100;
                dy = numOr (ann_height ann) 0 / pg_originalHeight page * 100;
                rot = atan2 dy dx * 180 / pi;
                len = sqrt (dx * dx + dy * dy)
            in Some \<lparr>el_left = startX, el_top = startY, el_width = Some len, el_height = None,
                     el_content = ArrowBar (ann_color ann) rot len\<rparr>)
         else if ann_type ann = Image \<and> truthy (ann_imageData ann) then
           Some \<lparr>el_left = left, el_top = top, el_width = Some w, el_height = Some h,
                 el_content = ImgEl (the (ann_imageData ann))\<rparr>
         else None)"

section \<open>Interactive annotation engine (src/components/AnnotationEditor.tsx)\<close>

datatype interaction_mode = NoInteraction | Moving | Resizing

text \<open>
  The provisional shape \<^verbatim>\<open>currentAnnotation\<close>. Its TypeScript type is
  \<^verbatim>\<open>Partial<Annotation> | null\<close>; the only assignment of a non-null value
  (\<^verbatim>\<open>handleMouseDown\<close>) sets exactly these six fields, and \<^verbatim>\<open>handleMouseMove\<close>
  overwrites two of them.
\<close>

record provisional =
  cur_type :: ann_type
  cur_x :: real
  cur_y :: real
  cur_width :: real
  cur_height :: real
  cur_color :: string

text \<open>The \<^verbatim>\<open>useState\<close> cells of the component.\<close>

record editor_state =
  annotations :: "annotation list"
  tool :: tool_mode
  color :: string
  fontSize :: real
  isBold :: bool
  zoom :: real
  isDrawing :: bool
  dragStartPos :: point
  currentAnnotation :: "provisional option"
  selectedId :: "string option"
  interactionMode :: interaction_mode
  resizeHandle :: "string option"
  interactionStartPos :: point
  initialAnnState :: "annotation option"

text \<open>\<^verbatim>\<open>text.trim()\<close>, for the white space characters of ASCII.\<close>

definition isSpaceChar :: "char \<Rightarrow> bool" where
  "isSpaceChar c = (c \<in> set [CHR 0x09, CHR 0x0A, CHR 0x0B, CHR 0x0C, CHR 0x0D, CHR 0x20])"

definition trim :: "string \<Rightarrow> string" where
  "trim t = rev (dropWhile isSpaceChar (rev (dropWhile isSpaceChar t)))"

text \<open>
  In every handler \<open>pos\<close> is the value of \<^verbatim>\<open>getPointerPos(e)\<close>, the pointer position in
  page-intrinsic units; \<open>rnd\<close> is the rounding of the arithmetic; \<open>newId\<close> is the value \<^verbatim>\<open>crypto.randomUUID()\<close> returns if the handler
  calls it; \<open>promptText\<close> is what \<^verbatim>\<open>prompt\<close> returns if the handler calls it.
\<close>

definition handleMouseDown :: "point \<Rightarrow> string option \<Rightarrow> string \<Rightarrow> editor_state \<Rightarrow> editor_state" where
  "handleMouseDown pos promptText newId s =
     (if interactionMode s = Resizing then s
      else if interactionMode s = Moving then s
      else
        (case tool s of
           Select \<Rightarrow> s\<lparr>selectedId := None\<rparr>
         | Shape t \<Rightarrow>
             (let s1 = s\<lparr>dragStartPos := pos, isDrawing := True\<rparr> in
              if t = Text then
                (let s2 =
                   (if truthy promptText \<and> trim (the promptText) \<noteq> [] then
                      s1\<lparr>annotations := annotations s @
                            [\<lparr>ann_id = newId, ann_type = Text, ann_x = fst pos, ann_y = snd pos,
                              ann_width = None, ann_height = None,
                              ann_text = Some (the promptText), ann_color = color s,
                              ann_fontSize = Some (fontSize s),
                              ann_fontWeight = Some (if isBold s then Bold else Normal),
                              ann_imageData = None\<rparr>],
                          selectedId := Some newId\<rparr>
                    else s1)
                 in s2\<lparr>isDrawing := False\<rparr>)
              else if t = Image then s1\<lparr>isDrawing := False\<rparr>
              else
                (let shapeColor = (if t = Highlight then ''#ffff00'' else color s) in
                 s1\<lparr>currentAnnotation :=
                      Some \<lparr>cur_type = t, cur_x = fst pos, cur_y = snd pos,
                            cur_width = 0, cur_height = 0, cur_color = shapeColor\<rparr>\<rparr>))))"

definition handleMouseMove :: "(real \<Rightarrow> real) \<Rightarrow> point \<Rightarrow> editor_state \<Rightarrow> editor_state" where
  "handleMouseMove rnd pos s =
     (let x = fst pos; y = snd pos in
      if interactionMode s = Moving \<and> truthy (selectedId s) \<and> initialAnnState s \<noteq> None then
        (let dx = rnd (x - fst (interactionStartPos s));
             dy = rnd (y - snd (interactionStartPos s));
             init = the (initialAnnState s)
         in s\<lparr>annotations :=
                map (\<lambda>ann. if ann_id ann = the (selectedId s)
                            then ann\<lparr>ann_x := rnd (ann_x init + dx),
                                     ann_y := rnd (ann_y init + dy)\<rparr>
                            else ann)
                  (annotations s)\<rparr>)
      else if interactionMode s = Resizing \<and> truthy (selectedId s) \<and> initialAnnState s \<noteq> None
              \<and> truthy (resizeHandle s) then
        (let dx = rnd (x - fst (interactionStartPos s));
             dy = rnd (y - snd (interactionStartPos s));
             init = the (initialAnnState s);
             handle = the (resizeHandle s)
         in s\<lparr>annotations :=
                map (\<lambda>ann.
                       if ann_id ann \<noteq> the (selectedId s) then ann
                       else
                         (let newX = ann_x init;
                              newY = ann_y init;
                              newW = numOr (ann_width init) 0;
                              newH = numOr (ann_height init) 0;
                              newW = (if CHR ''e'' \<in> set handle then rnd (newW + dx) else newW);
                              (newX, newW) =
                                (if CHR ''w'' \<in> set handle
                                 then (rnd (newX + dx), rnd (newW - dx)) else (newX, newW));
                              newH = (if CHR ''s'' \<in> set handle then rnd (newH + dy) else newH);
                              (newY, newH) =
                                (if CHR ''n'' \<in> set handle
                                 then (rnd (newY + dy), rnd (newH - dy)) else (newY, newH))
                          in ann\<lparr>ann_x := newX, ann_y := newY,
                                 ann_width := Some newW, ann_height := Some newH\<rparr>))
                  (annotations s)\<rparr>)
      else if \<not> isDrawing s \<or> currentAnnotation s = None
              \<or> tool s = Shape Text \<or> tool s = Shape Image then s
      else
        s\<lparr>currentAnnotation :=
            map_option
              (\<lambda>prev. prev\<lparr>cur_width := rnd (x - fst (dragStartPos s)),
                            cur_height := rnd (y - snd (dragStartPos s))\<rparr>)
              (currentAnnotation s)\<rparr>)"

definition handleMouseUp :: "string \<Rightarrow> editor_state \<Rightarrow> editor_state" where
  "handleMouseUp newId s =
     (let s1 = s\<lparr>interactionMode := NoInteraction, resizeHandle := None,
                 initialAnnState := None\<rparr>
      in if \<not> isDrawing s then s1
         else
           (let s2 = s1\<lparr>isDrawing := False\<rparr>;
                s3 =
                  (case currentAnnotation s of
                     None \<Rightarrow> s2
                   | Some cur \<Rightarrow>
                       if \<bar>numOr (Some (cur_width cur)) 0\<bar> > 5
                          \<or> \<bar>numOr (Some (cur_height cur)) 0\<bar> > 5
                       then
                         s2\<lparr>annotations := annotations s @
                              [\<lparr>ann_id = newId, ann_type = cur_type cur,
                                ann_x = fst (dragStartPos s), ann_y = snd (dragStartPos s),
                                ann_width = Some (cur_width cur),
                                ann_height = Some (cur_height cur),
                                ann_text = None,
                                ann_color = strOr (Some (cur_color cur)) (color s),
                                ann_fontSize = None, ann_fontWeight = None,
                                ann_imageData = None\<rparr>],
                            selectedId := Some newId\<rparr>
                       else s2)
            in s3\<lparr>currentAnnotation := None\<rparr>))"


definition handleResizeStart :: "point \<Rightarrow> string \<Rightarrow> string \<Rightarrow> editor_state \<Rightarrow> editor_state" where
  "handleResizeStart pos handle ident s =
     (case find (\<lambda>a. ann_id a = ident) (annotations s) of
        None \<Rightarrow> s
      | Some ann \<Rightarrow>
          s\<lparr>selectedId := Some ident, interactionMode := Resizing,
            resizeHandle := Some handle, interactionStartPos := pos,
            initialAnnState := Some ann\<rparr>)"

text \<open>
  The effect with dependencies \<^verbatim>\<open>[fontSize, isBold, selectedId]\<close> (AnnotationEditor.tsx
  48--64): the toolbar's font settings are written into the selected text annotation.
\<close>

definition syncToolbarEffect :: "editor_state \<Rightarrow> editor_state" where
  "syncToolbarEffect s =
     (if truthy (selectedId s) then
        s\<lparr>annotations :=
            map (\<lambda>ann. if ann_id ann = the (selectedId s)
                        then (if ann_type ann = Text
                              then ann\<lparr>ann_fontSize := Some (fontSize s),
                                       ann_fontWeight := Some (if isBold s then Bold else Normal)\<rparr>
                              else ann)
                        else ann)
              (annotations s)\<rparr>
      else s)"

text \<open>One event: the handler runs to completion, and the effect runs after it when one of
  its dependencies has changed.\<close>

definition dispatch :: "(editor_state \<Rightarrow> editor_state) \<Rightarrow> editor_state \<Rightarrow> editor_state" where
  "dispatch handler s =
     (let s' = handler s in
      if fontSize s' \<noteq> fontSize s \<or> isBold s' \<noteq> isBold s \<or> selectedId s' \<noteq> selectedId s
      then syncToolbarEffect s' else s')"

text \<open>A drawing gesture: pointer-down on the canvas at \<open>p0\<close>, pointer-moves through the
  positions \<open>ps\<close>, pointer-up.\<close>

definition drawGesture ::
  "(real \<Rightarrow> real) \<Rightarrow> point \<Rightarrow> point list \<Rightarrow> string \<Rightarrow> editor_state \<Rightarrow> editor_state" where
  "drawGesture rnd p0 ps newId s =
     dispatch (handleMouseUp newId)
       (foldl (\<lambda>s' p. dispatch (handleMouseMove rnd p) s')
          (dispatch (handleMouseDown p0 None newId) s) ps)"




section \<open>Buffers and the external PDF libraries\<close>

text \<open>
  An \<^verbatim>\<open>ArrayBuffer\<close> lives in a store; a reference is its index. A buffer that has been
  transferred to the PDF.js worker is detached: its bytes are gone for every holder of the
  reference. The world also records every call that hands a buffer to a parser.
\<close>

type_synonym bytes = string

record buffer =
  buf_bytes :: bytes
  buf_detached :: bool

datatype ext_call = GetDocument buf_ref | PdfLibLoad buf_ref | EmbedJpg buf_ref | EmbedPng buf_ref

fun callArg :: "ext_call \<Rightarrow> buf_ref" where
  "callArg (GetDocument r) = r"
| "callArg (PdfLibLoad r) = r"
| "callArg (EmbedJpg r) = r"
| "callArg (EmbedPng r) = r"

record world =
  heap :: "buffer list"
  calls :: "ext_call list"

text \<open>A fresh buffer holding \<open>bs\<close>.\<close>

definition alloc :: "bytes \<Rightarrow> world \<Rightarrow> buf_ref \<times> world" where
  "alloc bs w = (length (heap w), w\<lparr>heap := heap w @ [\<lparr>buf_bytes = bs, buf_detached = False\<rparr>]\<rparr>)"

text \<open>The bytes a reader sees through a reference: none once the buffer is detached.\<close>

definition readBytes :: "buf_ref \<Rightarrow> world \<Rightarrow> bytes" where
  "readBytes r w =
     (if r < length (heap w) \<and> \<not> buf_detached (heap w ! r) then buf_bytes (heap w ! r) else [])"

text \<open>\<^verbatim>\<open>buffer.slice(0)\<close>: a fresh buffer with the same bytes; on a detached buffer it
  throws (\<open>None\<close>).\<close>

definition slice0 :: "buf_ref \<Rightarrow> world \<Rightarrow> (buf_ref \<times> world) option" where
  "slice0 r w =
     (if r < length (heap w) \<and> \<not> buf_detached (heap w ! r)
      then Some (alloc (buf_bytes (heap w ! r)) w) else None)"

definition detach :: "buf_ref \<Rightarrow> world \<Rightarrow> world" where
  "detach r w =
     (if r < length (heap w)
      then w\<lparr>heap := (heap w)[r := \<lparr>buf_bytes = [], buf_detached = True\<rparr>]\<rparr> else w)"

text \<open>What an \<^verbatim>\<open>async\<close> function throws: the error of \<^verbatim>\<open>loadPDF\<close> for an image that cannot
  be converted, the \<^verbatim>\<open>TypeError\<close> of \<^verbatim>\<open>slice\<close> on a detached buffer, and the errors of
  the two PDF libraries.\<close>

datatype error = UnsupportedImageFormat | TypeError | PdfJsError | PdfLibError

text \<open>The settling of a promise; \<open>Pending\<close> is a promise that never settles.\<close>

datatype 'a outcome = Resolved 'a | Rejected error | Pending

text \<open>A page of a pdf-lib document: its \<^verbatim>\<open>/Rotate\<close> angle, its size, its content and
  the images drawn over the content.\<close>

record raster =
  r_width :: real
  r_height :: real
  r_ops :: "draw_op list"

record drawn_image =
  di_image :: raster
  di_x :: real
  di_y :: real
  di_width :: real
  di_height :: real

record pdf_page =
  pp_rotation :: int
  pp_width :: real
  pp_height :: real
  pp_content :: string
  pp_drawn :: "drawn_image list"

text \<open>The document being written: its pages and the images embedded into it.\<close>

record merged_pdf =
  m_pages :: "pdf_page list"
  m_images :: "raster list"

text \<open>
  The collaborators that are not part of the repository, as parameters:
  \<^item> \<open>pdfjsParse\<close>: what \<^verbatim>\<open>pdfjsLib.getDocument\<close> makes of the bytes, the size of each page
    at scale 1, or \<open>None\<close> when loading rejects;
  \<^item> \<open>pdflibParse\<close>: the pages \<^verbatim>\<open>PDFLib.PDFDocument.load\<close> reads, or \<open>None\<close> when it
    rejects;
  \<^item> \<open>embedJpgSize\<close>, \<open>embedPngSize\<close>: the size of the embedded image, or \<open>None\<close> when
    embedding throws;
  \<^item> \<open>imagePdfBytes\<close>: the bytes \<^verbatim>\<open>pdfDoc.save()\<close> returns for the one-page document
    made of an image;
  \<^item> \<open>rasterize\<close>: the data URL of a page rendered at a scale and a rotation;
  \<^item> \<open>imageLoads\<close>: whether \<^verbatim>\<open>img.onload\<close> fires for a data URL;
  \<^item> \<open>canvasContext\<close>: whether \<^verbatim>\<open>canvas.getContext('2d')\<close> returns a context.
\<close>

record env =
  pdfjsParse :: "bytes \<Rightarrow> (real \<times> real) list option"
  pdflibParse :: "bytes \<Rightarrow> pdf_page list option"
  embedJpgSize :: "bytes \<Rightarrow> (real \<times> real) option"
  embedPngSize :: "bytes \<Rightarrow> (real \<times> real) option"
  imagePdfBytes :: "bytes \<Rightarrow> real \<times> real \<Rightarrow> bytes"
  rasterize :: "bytes \<Rightarrow> nat \<Rightarrow> real \<Rightarrow> int \<Rightarrow> string"
  imageLoads :: "string \<Rightarrow> bool"
  canvasContext :: bool

text \<open>\<^verbatim>\<open>pdfjsLib.getDocument({ data })\<close>: the call is recorded, the bytes are read and the
  buffer handed over is detached.\<close>

definition getDocument :: "env \<Rightarrow> buf_ref \<Rightarrow> world \<Rightarrow> (real \<times> real) list option \<times> world" where
  "getDocument env r w =
     (pdfjsParse env (readBytes r w), detach r (w\<lparr>calls := calls w @ [GetDocument r]\<rparr>))"

text \<open>\<^verbatim>\<open>PDFLib.PDFDocument.load(data)\<close>: the call is recorded and the bytes are read; the
  buffer stays as it is.\<close>

definition pdfLibLoad :: "env \<Rightarrow> buf_ref \<Rightarrow> world \<Rightarrow> pdf_page list option \<times> world" where
  "pdfLibLoad env r w = (pdflibParse env (readBytes r w), w\<lparr>calls := calls w @ [PdfLibLoad r]\<rparr>)"

section \<open>Document ingestion (src/utils/pdfUtils.ts, loadPDF and renderHighResPage)\<close>

record js_file =
  file_name :: string
  file_type :: string
  file_bytes :: bytes

text \<open>\<^verbatim>\<open>startsWith\<close>, \<^verbatim>\<open>endsWith\<close> and \<^verbatim>\<open>toLowerCase\<close> of JavaScript strings; lower case
  is taken for the letters of ASCII, which is all the tests on file names depend on.\<close>

definition startsWith :: "string \<Rightarrow> string \<Rightarrow> bool" where
  "startsWith prefix t = (take (length prefix) t = prefix)"

definition endsWith :: "string \<Rightarrow> string \<Rightarrow> bool" where
  "endsWith suffix t = (length suffix \<le> length t \<and> drop (length t - length suffix) t = suffix)"

definition toLowerChar :: "char \<Rightarrow> char" where
  "toLowerChar c = (let n = (of_char c :: nat) in if 65 \<le> n \<and> n \<le> 90 then char_of (n + 32) else c)"

definition toLowerCase :: "string \<Rightarrow> string" where
  "toLowerCase t = map toLowerChar t"

text \<open>\<^verbatim>\<open>/\.(jpg|jpeg|png|webp)$/i.test(name)\<close>\<close>

definition hasImageExtension :: "string \<Rightarrow> bool" where
  "hasImageExtension name =
     (endsWith ''.jpg'' (toLowerCase name) \<or> endsWith ''.jpeg'' (toLowerCase name)
      \<or> endsWith ''.png'' (toLowerCase name) \<or> endsWith ''.webp'' (toLowerCase name))"

text \<open>The image branch of \<^verbatim>\<open>loadPDF\<close> (pdfUtils.ts 15--47): the new buffer and file name,
  or \<open>None\<close> when the conversion throws.\<close>

definition convertImage :: "env \<Rightarrow> js_file \<Rightarrow> buf_ref \<Rightarrow> world \<Rightarrow> (buf_ref \<times> string) option \<times> world" where
  "convertImage env f arrayBuffer w =
     (let fileName = file_name f;
          jpeg = (file_type f = ''image/jpeg'' \<or> file_type f = ''image/jpg''
                  \<or> endsWith ''.jpg'' (toLowerCase fileName)
                  \<or> endsWith ''.jpeg'' (toLowerCase fileName));
          (image, w1) =
            (if jpeg then
               (embedJpgSize env (readBytes arrayBuffer w),
                w\<lparr>calls := calls w @ [EmbedJpg arrayBuffer]\<rparr>)
             else
               (case embedPngSize env (readBytes arrayBuffer w) of
                  Some sz \<Rightarrow> (Some sz, w\<lparr>calls := calls w @ [EmbedPng arrayBuffer]\<rparr>)
                | None \<Rightarrow>
                    (embedJpgSize env (readBytes arrayBuffer w),
                     w\<lparr>calls := calls w @ [EmbedPng arrayBuffer, EmbedJpg arrayBuffer]\<rparr>)))
      in case image of
           None \<Rightarrow> (None, w1)
         | Some sz \<Rightarrow>
             (let (pdfBuffer, w2) = alloc (imagePdfBytes env (readBytes arrayBuffer w) sz) w1
              in (Some (pdfBuffer, fileName @ ''.pdf''), w2)))"

text \<open>\<open>uuids\<close> is the sequence of values \<^verbatim>\<open>crypto.randomUUID()\<close> returns.\<close>

definition loadPDF ::
  "env \<Rightarrow> (nat \<Rightarrow> string) \<Rightarrow> js_file \<Rightarrow> world \<Rightarrow> (source_pdf \<times> pdf_page_data list) outcome \<times> world" where
  "loadPDF env uuids f w0 =
     (let (arrayBuffer, w1) = alloc (file_bytes f) w0;
          isImage = (startsWith ''image/'' (file_type f) \<or> hasImageExtension (file_name f));
          (converted, w2) =
            (if isImage \<and> file_type f \<noteq> ''application/pdf''
             then convertImage env f arrayBuffer w1
             else (Some (arrayBuffer, file_name f), w1))
      in case converted of
           None \<Rightarrow> (Rejected UnsupportedImageFormat, w2)
         | Some (arrayBuffer, fileName) \<Rightarrow>
             (case slice0 arrayBuffer w2 of
                None \<Rightarrow> (Rejected TypeError, w2)
              | Some (copy, w3) \<Rightarrow>
                  (let bs = readBytes copy w3;
                       (pdf, w4) = getDocument env copy w3
                   in case pdf of
                        None \<Rightarrow> (Rejected PdfJsError, w4)
                      | Some sizes \<Rightarrow>
                          (let sourceId = uuids 0;
                               pages =
                                 map (\<lambda>i.
                                        (let viewportWidth = fst (sizes ! i) * 0.5;
                                             viewportHeight = snd (sizes ! i) * 0.5
                                         in \<lparr>pg_id = uuids (Suc i), pg_sourcePdfId = sourceId,
                                             pg_pageIndex = i, pg_rotation = 0,
                                             pg_thumbnailUrl = rasterize env bs i 0.5 0,
                                             pg_originalWidth = viewportWidth * 2,
                                             pg_originalHeight = viewportHeight * 2,
                                             pg_annotations = []\<rparr>))
                                   [0..<length sizes]
                           in (Resolved (\<lparr>src_id = sourceId, src_name = fileName,
                                           src_data = arrayBuffer\<rparr>, pages), w4)))))"


section \<open>Export compositor (src/utils/pdfUtils.ts, generateFinalPDF)\<close>

text \<open>The body of the loop over the pages (pdfUtils.ts 93--207).\<close>

definition exportPage ::
  "env \<Rightarrow> (string \<rightharpoonup> source_pdf) \<Rightarrow> pdf_page_data \<Rightarrow> merged_pdf \<times> world
     \<Rightarrow> (merged_pdf \<times> world) outcome" where
  "exportPage env sources pageData mw =
     (let mergedPdf = fst mw; w = snd mw in
      case sources (pg_sourcePdfId pageData) of
        None \<Rightarrow> Resolved (mergedPdf, w)
      | Some source \<Rightarrow>
          (let (sourcePdfDoc, w1) = pdfLibLoad env (src_data source) w in
           case sourcePdfDoc of
             None \<Rightarrow> Rejected PdfLibError
           | Some srcPages \<Rightarrow>
               if length srcPages \<le> pg_pageIndex pageData then Rejected PdfLibError
               else
                 (let copiedPage = srcPages ! pg_pageIndex pageData;
                      currentRotation = pp_rotation copiedPage;
                      copiedPage = copiedPage\<lparr>pp_rotation := currentRotation + pg_rotation pageData\<rparr>
                  in if length (pg_annotations pageData) > 0 then
                       (if canvasContext env then
                          (case exportDrawAll (imageLoads env) (pg_annotations pageData) of
                             None \<Rightarrow> Pending
                           | Some ops \<Rightarrow>
                               (let pngImage = \<lparr>r_width = pg_originalWidth pageData,
                                                r_height = pg_originalHeight pageData,
                                                r_ops = ops\<rparr>;
                                    mergedPdf =
                                      mergedPdf\<lparr>m_images := m_images mergedPdf @ [pngImage]\<rparr>;
                                    copiedPage = copiedPage\<lparr>pp_drawn := pp_drawn copiedPage @
                                      [\<lparr>di_image = pngImage, di_x = 0, di_y = 0,
                                        di_width = pp_width copiedPage,
                                        di_height = pp_height copiedPage\<rparr>]\<rparr>
                                in Resolved
                                     (mergedPdf\<lparr>m_pages := m_pages mergedPdf @ [copiedPage]\<rparr>, w1)))
                        else Resolved (mergedPdf\<lparr>m_pages := m_pages mergedPdf @ [copiedPage]\<rparr>, w1))
                     else Resolved (mergedPdf\<lparr>m_pages := m_pages mergedPdf @ [copiedPage]\<rparr>, w1))))"

fun exportPages ::
  "env \<Rightarrow> (string \<rightharpoonup> source_pdf) \<Rightarrow> pdf_page_data list \<Rightarrow> merged_pdf \<times> world
     \<Rightarrow> (merged_pdf \<times> world) outcome" where
  "exportPages env sources [] mw = Resolved mw"
| "exportPages env sources (pageData # rest) mw =
     (case exportPage env sources pageData mw of
        Resolved mw' \<Rightarrow> exportPages env sources rest mw'
      | Rejected e \<Rightarrow> Rejected e
      | Pending \<Rightarrow> Pending)"

definition generateFinalPDF ::
  "env \<Rightarrow> pdf_page_data list \<Rightarrow> (string \<rightharpoonup> source_pdf) \<Rightarrow> world \<Rightarrow> (merged_pdf \<times> world) outcome" where
  "generateFinalPDF env pages sources w =
     exportPages env sources pages (\<lparr>m_pages = [], m_images = []\<rparr>, w)"

section \<open>Clipboard copy: the arrow (src/App.tsx, copyToClipboard)\<close>


section \<open>Page collection controller (src/App.tsx)\<close>

definition rotateSelected :: "string set \<Rightarrow> pdf_page_data list \<Rightarrow> pdf_page_data list" where
  "rotateSelected selectedPageIds pages =
     map (\<lambda>p. if pg_id p \<in> selectedPageIds
               then p\<lparr>pg_rotation := jsRem (pg_rotation p + 90) 360\<rparr>
               else p)
       pages"

section \<open>Notions used to state the properties\<close>

text \<open>The state of a freshly opened editor: the initial values of the \<^verbatim>\<open>useState\<close> cells
  (AnnotationEditor.tsx 13--32).\<close>

definition initialState :: "annotation list \<Rightarrow> editor_state" where
  "initialState anns =
     \<lparr>annotations = anns, tool = Select, color = ''#ef4444'', fontSize = 32, isBold = False,
      zoom = 0.8, isDrawing = False, dragStartPos = (0, 0), currentAnnotation = None,
      selectedId = None, interactionMode = NoInteraction, resizeHandle = None,
      interactionStartPos = (0, 0), initialAnnState = None\<rparr>"

text \<open>The tools that start a drawing gesture.\<close>

definition drawingTool :: "ann_type \<Rightarrow> bool" where
  "drawingTool t = (t = Rect \<or> t = Highlight \<or> t = Arrow)"

text \<open>The editor state in the middle of a drawing gesture that started at \<open>p0\<close> in state
  \<open>s\<close>, the provisional shape having the extent \<open>(w, h)\<close>.\<close>

definition drawing :: "ann_type \<Rightarrow> point \<Rightarrow> real \<Rightarrow> real \<Rightarrow> editor_state \<Rightarrow> editor_state" where
  "drawing t p0 w h s =
     s\<lparr>dragStartPos := p0, isDrawing := True,
       currentAnnotation :=
         Some \<lparr>cur_type = t, cur_x = fst p0, cur_y = snd p0,
               cur_width = w, cur_height = h,
               cur_color = (if t = Highlight then ''#ffff00'' else color s)\<rparr>\<rparr>"

text \<open>The extent of the provisional shape after the pointer-moves \<open>ps\<close> of a drawing gesture
  that started at \<open>p0\<close>: zero without a move, else the rounded vector from \<open>p0\<close> to the last
  position.\<close>

definition drawnExtent :: "(real \<Rightarrow> real) \<Rightarrow> point \<Rightarrow> point list \<Rightarrow> real \<times> real" where
  "drawnExtent rnd p0 ps =
     (if ps = [] then (0, 0)
      else (rnd (fst (last ps) - fst p0), rnd (snd (last ps) - snd p0)))"

text \<open>A shape without text, font or image data.\<close>

definition shape :: "string \<Rightarrow> ann_type \<Rightarrow> real \<Rightarrow> real \<Rightarrow> real \<Rightarrow> real \<Rightarrow> string \<Rightarrow> annotation" where
  "shape i t x y w h c =
     \<lparr>ann_id = i, ann_type = t, ann_x = x, ann_y = y, ann_width = Some w, ann_height = Some h,
      ann_text = None, ann_color = c, ann_fontSize = None, ann_fontWeight = None,
      ann_imageData = None\<rparr>"










text \<open>Values for the examples.\<close>

definition exampleRect :: annotation where
  "exampleRect = shape ''a1'' Rect 10 10 50 40 ''#ef4444''"

definition exampleHighlight :: annotation where
  "exampleHighlight = shape ''h1'' Highlight 100 100 (-50) (-50) ''#ffff00''"


definition examplePage :: pdf_page_data where
  "examplePage =
     \<lparr>pg_id = ''p2'', pg_sourcePdfId = ''s1'', pg_pageIndex = 1, pg_rotation = 0,
      pg_thumbnailUrl = ''data:image/png'', pg_originalWidth = 600, pg_originalHeight = 800,
      pg_annotations = []\<rparr>"

text \<open>A two-page PDF file, the world after its ingestion, and collaborators that read it.\<close>

definition exampleFile :: js_file where
  "exampleFile = \<lparr>file_name = ''doc.pdf'', file_type = ''application/pdf'', file_bytes = ''%PDF''\<rparr>"

definition exampleUuids :: "nat \<Rightarrow> string" where
  "exampleUuids n = (if n = 0 then ''s1'' else if n = 1 then ''p1'' else ''p2'')"

definition examplePdfPages :: "pdf_page list" where
  "examplePdfPages =
     [\<lparr>pp_rotation = 0, pp_width = 600, pp_height = 800, pp_content = ''one'', pp_drawn = []\<rparr>,
      \<lparr>pp_rotation = 90, pp_width = 600, pp_height = 800, pp_content = ''two'', pp_drawn = []\<rparr>]"

definition exampleEnv :: env where
  "exampleEnv =
     \<lparr>pdfjsParse = (\<lambda>bs. if bs = ''%PDF'' then Some [(600, 800), (600, 800)] else None),
      pdflibParse = (\<lambda>bs. if bs = ''%PDF'' then Some examplePdfPages else None),
      embedJpgSize = (\<lambda>bs. None),
      embedPngSize = (\<lambda>bs. None),
      imagePdfBytes = (\<lambda>bs sz. ''%PDF''),
      rasterize = (\<lambda>bs i sc rot. ''data:image/png''),
      imageLoads = (\<lambda>u. True),
      canvasContext = True\<rparr>"

definition exampleSource :: source_pdf where
  "exampleSource = \<lparr>src_id = ''s1'', src_name = ''doc.pdf'', src_data = 0\<rparr>"

definition exampleSources :: "string \<rightharpoonup> source_pdf" where
  "exampleSources = [''s1'' \<mapsto> exampleSource]"

definition examplePages :: "pdf_page_data list" where
  "examplePages =
     [\<lparr>pg_id = ''p1'', pg_sourcePdfId = ''s1'', pg_pageIndex = 0, pg_rotation = 0,
       pg_thumbnailUrl = ''data:image/png'', pg_originalWidth = 600, pg_originalHeight = 800,
       pg_annotations = []\<rparr>,
      \<lparr>pg_id = ''p2'', pg_sourcePdfId = ''s1'', pg_pageIndex = 1, pg_rotation = 0,
       pg_thumbnailUrl = ''data:image/png'', pg_originalWidth = 600, pg_originalHeight = 800,
       pg_annotations = []\<rparr>]"

definition emptyWorld :: world where
  "emptyWorld = \<lparr>heap = [], calls = []\<rparr>"

definition loadedWorld :: world where
  "loadedWorld =
     \<lparr>heap = [\<lparr>buf_bytes = ''%PDF'', buf_detached = False\<rparr>,
              \<lparr>buf_bytes = [], buf_detached = True\<rparr>],
      calls = [GetDocument 1]\<rparr>"

definition emptyPdf :: merged_pdf where
  "emptyPdf = \<lparr>m_pages = [], m_images = []\<rparr>"

text \<open>The user has drawn the rectangle on the second page of the loaded document.\<close>

definition exampleAnnotated :: "pdf_page_data list" where
  "exampleAnnotated = [examplePages ! 0, (examplePages ! 1)\<lparr>pg_annotations := [exampleRect]\<rparr>]"

text \<open>The page of the source document that the export copies for the page \<open>q\<close> of the
  collection in the world \<open>w\<close>: there is one when the source is registered, pdf-lib parses
  its bytes, and the index is a page of it.\<close>

definition sourcePage ::
  "env \<Rightarrow> (string \<rightharpoonup> source_pdf) \<Rightarrow> world \<Rightarrow> pdf_page_data \<Rightarrow> pdf_page option" where
  "sourcePage env sources w q =
     (case sources (pg_sourcePdfId q) of
        None \<Rightarrow> None
      | Some src \<Rightarrow>
          (case pdflibParse env (readBytes (src_data src) w) of
             None \<Rightarrow> None
           | Some srcPages \<Rightarrow>
               if pg_pageIndex q < length srcPages then Some (srcPages ! pg_pageIndex q)
               else None))"

text \<open>Every image among the annotations loads (its \<^verbatim>\<open>onload\<close> fires).\<close>

definition imagesLoad :: "env \<Rightarrow> annotation list \<Rightarrow> bool" where
  "imagesLoad env anns =
     list_all (\<lambda>a. ann_type a = Image \<and> truthy (ann_imageData a)
                     \<longrightarrow> imageLoads env (the (ann_imageData a))) anns"

section \<open>Properties of box normalization\<close>

lemma numOr_zero [simp]: "numOr (Some r) 0 = r"
  by (simp add: numOr_def)

lemma normalizeBox_fields:
  "nl_ann (normalizeBox a) = a"
  "boxX (normalizeBox a) = (if numOr (ann_width a) 0 < 0 then ann_x a + numOr (ann_width a) 0 else ann_x a)"
  "boxY (normalizeBox a) = (if numOr (ann_height a) 0 < 0 then ann_y a + numOr (ann_height a) 0 else ann_y a)"
  "boxW (normalizeBox a) = \<bar>numOr (ann_width a) 0\<bar>"
  "boxH (normalizeBox a) = \<bar>numOr (ann_height a) 0\<bar>"
  by (simp_all add: normalizeBox_def Let_def)

lemma numOr_abs [simp]: "numOr (Some \<bar>r\<bar>) 0 = \<bar>r\<bar>"
  by (simp add: numOr_def)


section \<open>Properties of the pointer gestures\<close>

subsection \<open>What a pointer-move and the effect leave alone\<close>

lemma move_frame:
  "fontSize (handleMouseMove rnd p s) = fontSize s"
  "isBold (handleMouseMove rnd p s) = isBold s"
  "selectedId (handleMouseMove rnd p s) = selectedId s"
  "color (handleMouseMove rnd p s) = color s"
  "tool (handleMouseMove rnd p s) = tool s"
  "isDrawing (handleMouseMove rnd p s) = isDrawing s"
  "interactionMode (handleMouseMove rnd p s) = interactionMode s"
  "interactionStartPos (handleMouseMove rnd p s) = interactionStartPos s"
  "initialAnnState (handleMouseMove rnd p s) = initialAnnState s"
  "resizeHandle (handleMouseMove rnd p s) = resizeHandle s"
  "dragStartPos (handleMouseMove rnd p s) = dragStartPos s"
  by (simp_all add: handleMouseMove_def Let_def)

lemma dispatch_move: "dispatch (handleMouseMove rnd p) s = handleMouseMove rnd p s"
  by (simp add: dispatch_def Let_def move_frame)







lemma sync_id:
  assumes "\<forall>a \<in> set (annotations s). ann_id a = the (selectedId s) \<longrightarrow> ann_type a \<noteq> Text"
  shows "syncToolbarEffect s = s"
proof -
  have "map (\<lambda>ann. if ann_id ann = the (selectedId s)
                    then (if ann_type ann = Text
                          then ann\<lparr>ann_fontSize := Some (fontSize s),
                                   ann_fontWeight := Some (if isBold s then Bold else Normal)\<rparr>
                          else ann)
                    else ann) (annotations s) = annotations s"
    using assms by (intro map_idI) auto
  then show ?thesis by (simp add: syncToolbarEffect_def)
qed

subsection \<open>Resizing\<close>

lemma resize_step:
  assumes "interactionMode s = Resizing" "selectedId s = Some sid" "sid \<noteq> []"
    "initialAnnState s = Some init" "resizeHandle s = Some h" "h \<noteq> []"
  shows "handleMouseMove rnd pos s =
     (let dx = rnd (fst pos - fst (interactionStartPos s));
          dy = rnd (snd pos - snd (interactionStartPos s))
      in s\<lparr>annotations :=
           map (\<lambda>ann. if ann_id ann = sid
                  then ann\<lparr>ann_x := (if CHR ''w'' \<in> set h then rnd (ann_x init + dx)
                                     else ann_x init),
                           ann_y := (if CHR ''n'' \<in> set h then rnd (ann_y init + dy)
                                     else ann_y init),
                           ann_width := Some
                             (let w0 = numOr (ann_width init) 0;
                                  w1 = (if CHR ''e'' \<in> set h then rnd (w0 + dx) else w0)
                              in if CHR ''w'' \<in> set h then rnd (w1 - dx) else w1),
                           ann_height := Some
                             (let h0 = numOr (ann_height init) 0;
                                  h1 = (if CHR ''s'' \<in> set h then rnd (h0 + dy) else h0)
                              in if CHR ''n'' \<in> set h then rnd (h1 - dy) else h1)\<rparr>
                  else ann) (annotations s)\<rparr>)"
  using assms
  by (simp add: handleMouseMove_def Let_def truthy_def cong: map_cong)

text \<open>
  C3. While a resize is in progress (mode resizing, a selected id, a snapshot and a handle),
  a pointer-move at \<open>pos\<close> recomputes the selected annotation from the snapshot \<open>init\<close> and
  the total delta \<open>(dx, dy) = pos - interactionStartPos\<close>: an \<open>e\<close> in the handle adds \<open>dx\<close> to
  the width; a \<open>w\<close> adds \<open>dx\<close> to \<open>x\<close> and subtracts it from the width; an \<open>s\<close> adds \<open>dy\<close> to
  the height; an \<open>n\<close> adds \<open>dy\<close> to \<open>y\<close> and subtracts it from the height. Every sum and
  difference is the rounded one, for every rounding \<open>rnd\<close> of the arithmetic (the identity
  gives the exact values). The values are stored as computed, whatever their sign; the
  other annotations, the snapshot, the start position, the handle and the mode are left as
  they were, so the next pointer-move starts from the same snapshot again.
\<close>

theorem resize_from_snapshot:
  assumes "interactionMode s = Resizing" and "selectedId s = Some sid" and "sid \<noteq> []"
    and "initialAnnState s = Some init" and "resizeHandle s = Some h" and "h \<noteq> []"
  shows "(let dx = rnd (fst pos - fst (interactionStartPos s));
              dy = rnd (snd pos - snd (interactionStartPos s));
              s' = dispatch (handleMouseMove rnd pos) s
          in annotations s' =
               map (\<lambda>ann. if ann_id ann = sid
                      then ann\<lparr>ann_x := (if CHR ''w'' \<in> set h then rnd (ann_x init + dx)
                                         else ann_x init),
                               ann_y := (if CHR ''n'' \<in> set h then rnd (ann_y init + dy)
                                         else ann_y init),
                               ann_width := Some
                                 (let w0 = numOr (ann_width init) 0;
                                      w1 = (if CHR ''e'' \<in> set h then rnd (w0 + dx) else w0)
                                  in if CHR ''w'' \<in> set h then rnd (w1 - dx) else w1),
                               ann_height := Some
                                 (let h0 = numOr (ann_height init) 0;
                                      h1 = (if CHR ''s'' \<in> set h then rnd (h0 + dy) else h0)
                                  in if CHR ''n'' \<in> set h then rnd (h1 - dy) else h1)\<rparr>
                      else ann) (annotations s)
           \<and> initialAnnState s' = Some init
           \<and> interactionStartPos s' = interactionStartPos s
           \<and> resizeHandle s' = Some h
           \<and> interactionMode s' = Resizing
           \<and> selectedId s' = Some sid)
       \<and> (let dx = fst pos - fst (interactionStartPos s);
               dy = snd pos - snd (interactionStartPos s)
           in annotations (dispatch (handleMouseMove (\<lambda>v. v) pos) s) =
               map (\<lambda>ann. if ann_id ann = sid
                      then ann\<lparr>ann_x := ann_x init + (if CHR ''w'' \<in> set h then dx else 0),
                               ann_y := ann_y init + (if CHR ''n'' \<in> set h then dy else 0),
                               ann_width := Some (numOr (ann_width init) 0
                                  + (if CHR ''e'' \<in> set h then dx else 0)
                                  - (if CHR ''w'' \<in> set h then dx else 0)),
                               ann_height := Some (numOr (ann_height init) 0
                                  + (if CHR ''s'' \<in> set h then dy else 0)
                                  - (if CHR ''n'' \<in> set h then dy else 0))\<rparr>
                      else ann) (annotations s))"
proof (rule conjI)
  show "(let dx = rnd (fst pos - fst (interactionStartPos s));
              dy = rnd (snd pos - snd (interactionStartPos s));
              s' = dispatch (handleMouseMove rnd pos) s
          in annotations s' =
               map (\<lambda>ann. if ann_id ann = sid
                      then ann\<lparr>ann_x := (if CHR ''w'' \<in> set h then rnd (ann_x init + dx)
                                         else ann_x init),
                               ann_y := (if CHR ''n'' \<in> set h then rnd (ann_y init + dy)
                                         else ann_y init),
                               ann_width := Some
                                 (let w0 = numOr (ann_width init) 0;
                                      w1 = (if CHR ''e'' \<in> set h then rnd (w0 + dx) else w0)
                                  in if CHR ''w'' \<in> set h then rnd (w1 - dx) else w1),
                               ann_height := Some
                                 (let h0 = numOr (ann_height init) 0;
                                      h1 = (if CHR ''s'' \<in> set h then rnd (h0 + dy) else h0)
                                  in if CHR ''n'' \<in> set h then rnd (h1 - dy) else h1)\<rparr>
                      else ann) (annotations s)
           \<and> initialAnnState s' = Some init
           \<and> interactionStartPos s' = interactionStartPos s
           \<and> resizeHandle s' = Some h
           \<and> interactionMode s' = Resizing
           \<and> selectedId s' = Some sid)"
    unfolding dispatch_move resize_step [OF assms] Let_def
    using assms by simp
next
  show "(let dx = fst pos - fst (interactionStartPos s);
               dy = snd pos - snd (interactionStartPos s)
           in annotations (dispatch (handleMouseMove (\<lambda>v. v) pos) s) =
               map (\<lambda>ann. if ann_id ann = sid
                      then ann\<lparr>ann_x := ann_x init + (if CHR ''w'' \<in> set h then dx else 0),
                               ann_y := ann_y init + (if CHR ''n'' \<in> set h then dy else 0),
                               ann_width := Some (numOr (ann_width init) 0
                                  + (if CHR ''e'' \<in> set h then dx else 0)
                                  - (if CHR ''w'' \<in> set h then dx else 0)),
                               ann_height := Some (numOr (ann_height init) 0
                                  + (if CHR ''s'' \<in> set h then dy else 0)
                                  - (if CHR ''n'' \<in> set h then dy else 0))\<rparr>
                      else ann) (annotations s))"
    unfolding dispatch_move resize_step [OF assms] Let_def
    by (simp cong: map_cong)
qed

lemma binary64_numeral:
  "scale2 (numeral k) m u =
     (if 2 ^ 53 \<le> m then scale2 (pred_numeral k) (m / 2) (u * 2)
      else if m < 2 ^ 52 \<and> 1 / 2 ^ 1074 < u then scale2 (pred_numeral k) (m * 2) (u / 2)
      else (m, u))"
  by (simp add: numeral_eq_Suc)

lemmas binary64_eval = binary64_def binary64_numeral roundEven_def

text \<open>Dragging the \<open>se\<close> handle of the box \<open>(10, 10, 50, 40)\<close> from \<open>(60, 50)\<close> to \<open>(0, 0)\<close>
  in binary64 arithmetic stores the width \<open>-10\<close> and the height \<open>-10\<close>.\<close>

theorem resize_from_snapshot_witness:
  "(let s = handleResizeStart (60, 50) ''se'' ''a1'' (initialState [exampleRect]) in
      interactionMode s = Resizing \<and> selectedId s = Some ''a1'' \<and> ''a1'' \<noteq> []
    \<and> initialAnnState s = Some exampleRect \<and> resizeHandle s = Some ''se'' \<and> ''se'' \<noteq> []
    \<and> annotations (dispatch (handleMouseMove binary64 (0, 0)) s)
        = [shape ''a1'' Rect 10 10 (-10) (-10) ''#ef4444''])"
proof -
  let ?s = "handleResizeStart (60, 50) ''se'' ''a1'' (initialState [exampleRect])"
  have h: "interactionMode ?s = Resizing" "selectedId ?s = Some ''a1''" "''a1'' \<noteq> []"
    "initialAnnState ?s = Some exampleRect" "resizeHandle ?s = Some ''se''" "''se'' \<noteq> []"
    by (simp_all add: handleResizeStart_def initialState_def exampleRect_def shape_def)
  have r: "binary64 (- 60) = - 60" "binary64 (- 50) = - 50" "binary64 (- 10) = - 10"
    by (simp_all add: binary64_eval)
  show ?thesis
    using resize_from_snapshot [OF h, of binary64 "(0, 0)", THEN conjunct1] h
    by (simp add: Let_def handleResizeStart_def initialState_def exampleRect_def shape_def
        numOr_def r)
qed

subsection \<open>Drawing\<close>

lemma down_drawing:
  assumes "interactionMode s = NoInteraction" "tool s = Shape t" "drawingTool t"
  shows "dispatch (handleMouseDown p0 pt nid) s = drawing t p0 0 0 s"
  using assms
  by (auto simp: dispatch_def handleMouseDown_def drawing_def drawingTool_def Let_def)

lemma move_drawing:
  assumes "interactionMode s = NoInteraction" "tool s = Shape t" "drawingTool t"
  shows "handleMouseMove rnd p (drawing t p0 w h s)
         = drawing t p0 (rnd (fst p - fst p0)) (rnd (snd p - snd p0)) s"
  using assms
  by (auto simp: handleMouseMove_def drawing_def drawingTool_def Let_def)

lemma moves_drawing:
  assumes "interactionMode s = NoInteraction" "tool s = Shape t" "drawingTool t"
  shows "foldl (\<lambda>s' p. dispatch (handleMouseMove rnd p) s') (drawing t p0 0 0 s) ps
         = drawing t p0 (fst (drawnExtent rnd p0 ps)) (snd (drawnExtent rnd p0 ps)) s"
proof (induction ps rule: rev_induct)
  case Nil
  show ?case by (simp add: drawnExtent_def)
next
  case (snoc p ps)
  then show ?case by (simp add: dispatch_move move_drawing [OF assms] drawnExtent_def)
qed

lemma up_drawing_raw:
  assumes "interactionMode s = NoInteraction"
  shows "handleMouseUp nid (drawing t p0 w h s) =
     (if \<bar>w\<bar> > 5 \<or> \<bar>h\<bar> > 5
      then s\<lparr>annotations := annotations s @
               [shape nid t (fst p0) (snd p0) w h
                  (if t = Highlight then ''#ffff00'' else color s)],
             selectedId := Some nid, dragStartPos := p0, isDrawing := False,
             currentAnnotation := None, resizeHandle := None, initialAnnState := None\<rparr>
      else s\<lparr>dragStartPos := p0, isDrawing := False,
             currentAnnotation := None, resizeHandle := None, initialAnnState := None\<rparr>)"
proof -
  have col: "strOr (Some (if t = Highlight then ''#ffff00'' else color s)) (color s)
             = (if t = Highlight then ''#ffff00'' else color s)"
    by (simp add: strOr_def truthy_def)
  show ?thesis
    using assms
    by (simp add: handleMouseUp_def drawing_def shape_def Let_def col)
qed

lemma sync_commit:
  assumes "drawingTool t" and "nid \<notin> ann_id ` set (annotations s)"
  shows "syncToolbarEffect
           (s\<lparr>annotations := annotations s @ [shape nid t x y w h c],
              selectedId := Some nid, dragStartPos := p0, isDrawing := False,
              currentAnnotation := None, resizeHandle := None, initialAnnState := None\<rparr>)
         = s\<lparr>annotations := annotations s @ [shape nid t x y w h c],
              selectedId := Some nid, dragStartPos := p0, isDrawing := False,
              currentAnnotation := None, resizeHandle := None, initialAnnState := None\<rparr>"
  using assms
  by (intro sync_id) (auto simp: shape_def drawingTool_def)

lemma up_drawing:
  assumes "interactionMode s = NoInteraction" "drawingTool t"
    and "nid \<notin> ann_id ` set (annotations s)"
  shows "dispatch (handleMouseUp nid) (drawing t p0 w h s) =
     (if \<bar>w\<bar> > 5 \<or> \<bar>h\<bar> > 5
      then s\<lparr>annotations := annotations s @
               [shape nid t (fst p0) (snd p0) w h
                  (if t = Highlight then ''#ffff00'' else color s)],
             selectedId := Some nid, dragStartPos := p0, isDrawing := False,
             currentAnnotation := None, resizeHandle := None, initialAnnState := None\<rparr>
      else s\<lparr>dragStartPos := p0, isDrawing := False,
             currentAnnotation := None, resizeHandle := None, initialAnnState := None\<rparr>)"
proof (cases "\<bar>w\<bar> > 5 \<or> \<bar>h\<bar> > 5")
  case True
  then show ?thesis
    unfolding dispatch_def up_drawing_raw [OF assms(1)] Let_def
    by (simp add: sync_commit [OF assms(2,3)])
next
  case False
  then show ?thesis
    unfolding dispatch_def up_drawing_raw [OF assms(1)] Let_def
    by (simp add: drawing_def)
qed

lemma drawGesture_result:
  assumes "interactionMode s = NoInteraction" "tool s = Shape t" "drawingTool t"
    and "nid \<notin> ann_id ` set (annotations s)"
  shows "drawGesture rnd p0 ps nid s =
     (let w = fst (drawnExtent rnd p0 ps); h = snd (drawnExtent rnd p0 ps) in
      if \<bar>w\<bar> > 5 \<or> \<bar>h\<bar> > 5
      then s\<lparr>annotations := annotations s @
               [shape nid t (fst p0) (snd p0) w h
                  (if t = Highlight then ''#ffff00'' else color s)],
             selectedId := Some nid, dragStartPos := p0, isDrawing := False,
             currentAnnotation := None, resizeHandle := None, initialAnnState := None\<rparr>
      else s\<lparr>dragStartPos := p0, isDrawing := False,
             currentAnnotation := None, resizeHandle := None, initialAnnState := None\<rparr>)"
  unfolding drawGesture_def down_drawing [OF assms(1-3)] moves_drawing [OF assms(1-3)] Let_def
  by (rule up_drawing [OF assms(1,3,4)])

lemma drawnExtent_exact:
  "drawnExtent (\<lambda>v. v) p0 ps = (fst (last (p0 # ps)) - fst p0, snd (last (p0 # ps)) - snd p0)"
  by (simp add: drawnExtent_def)

text \<open>
  C4. A drawing gesture starts in the idle editor with the rect, highlight or arrow tool at
  \<open>p0\<close>, moves through \<open>ps\<close> and ends with pointer-up; \<open>p\<close> is the final pointer position and
  \<open>newId\<close> the fresh id. On pointer-up the provisional shape is dropped and drawing ends. If
  \<open>|fst p - fst p0| > 5\<close> or \<open>|snd p - snd p0| > 5\<close>, the annotation list gains, at its end,
  one shape with \<open>x, y\<close> the drag start point and \<open>width, height\<close> the signed vector from
  \<open>p0\<close> to \<open>p\<close>, and that shape is selected; otherwise the annotation list and the selection
  are unchanged. This holds with exact arithmetic, and for every rounding \<open>rnd\<close> of the
  arithmetic with the differences rounded (and the extent zero when the pointer never
  moved).
\<close>

theorem draw_gesture_commit:
  assumes "interactionMode s = NoInteraction" and "tool s = Shape t"
    and "t = Rect \<or> t = Highlight \<or> t = Arrow"
    and "newId \<notin> ann_id ` set (annotations s)"
  shows "(let p = last (p0 # ps); w = fst p - fst p0; h = snd p - snd p0;
              s' = drawGesture (\<lambda>v. v) p0 ps newId s
          in currentAnnotation s' = None \<and> \<not> isDrawing s'
           \<and> (if \<bar>w\<bar> > 5 \<or> \<bar>h\<bar> > 5
              then annotations s' = annotations s @
                     [\<lparr>ann_id = newId, ann_type = t, ann_x = fst p0, ann_y = snd p0,
                       ann_width = Some w, ann_height = Some h, ann_text = None,
                       ann_color = (if t = Highlight then ''#ffff00'' else color s),
                       ann_fontSize = None, ann_fontWeight = None, ann_imageData = None\<rparr>]
                   \<and> selectedId s' = Some newId
              else annotations s' = annotations s \<and> selectedId s' = selectedId s))
       \<and> (let w = (if ps = [] then 0 else rnd (fst (last ps) - fst p0));
               h = (if ps = [] then 0 else rnd (snd (last ps) - snd p0));
               s' = drawGesture rnd p0 ps newId s
           in currentAnnotation s' = None \<and> \<not> isDrawing s'
            \<and> (if \<bar>w\<bar> > 5 \<or> \<bar>h\<bar> > 5
               then annotations s' = annotations s @
                      [\<lparr>ann_id = newId, ann_type = t, ann_x = fst p0, ann_y = snd p0,
                        ann_width = Some w, ann_height = Some h, ann_text = None,
                        ann_color = (if t = Highlight then ''#ffff00'' else color s),
                        ann_fontSize = None, ann_fontWeight = None, ann_imageData = None\<rparr>]
                    \<and> selectedId s' = Some newId
               else annotations s' = annotations s \<and> selectedId s' = selectedId s))"
proof -
  have dt: "drawingTool t" using assms(3) by (simp add: drawingTool_def)
  have e: "fst (drawnExtent rnd p0 ps) = (if ps = [] then 0 else rnd (fst (last ps) - fst p0))"
    "snd (drawnExtent rnd p0 ps) = (if ps = [] then 0 else rnd (snd (last ps) - snd p0))"
    by (simp_all add: drawnExtent_def)
  show ?thesis
    unfolding drawGesture_result [OF assms(1,2) dt assms(4)] drawnExtent_exact e Let_def
    by (simp add: shape_def)
qed

text \<open>Dragging the rect tool from \<open>(100, 100)\<close> to \<open>(50, 50)\<close> in binary64 arithmetic stores
  \<open>x = 100\<close>, \<open>y = 100\<close>, \<open>width = -50\<close>, \<open>height = -50\<close>.\<close>

theorem draw_gesture_commit_witness:
  "(let s = (initialState [exampleRect])\<lparr>tool := Shape Rect\<rparr>;
        s' = drawGesture binary64 (100, 100) [(80, 70), (50, 50)] ''n1'' s
    in interactionMode s = NoInteraction \<and> tool s = Shape Rect
     \<and> ''n1'' \<notin> ann_id ` set (annotations s)
     \<and> annotations s' = [exampleRect, shape ''n1'' Rect 100 100 (-50) (-50) ''#ef4444'']
     \<and> selectedId s' = Some ''n1'' \<and> currentAnnotation s' = None)"
proof -
  let ?s = "(initialState [exampleRect])\<lparr>tool := Shape Rect\<rparr>"
  have h: "interactionMode ?s = NoInteraction" "tool ?s = Shape Rect"
    "Rect = Rect \<or> Rect = Highlight \<or> Rect = Arrow"
    "''n1'' \<notin> ann_id ` set (annotations ?s)"
    by (simp_all add: initialState_def exampleRect_def shape_def)
  have r: "binary64 (- 50) = - 50"
    by (simp add: binary64_eval)
  show ?thesis
    using draw_gesture_commit [OF h, of "(100, 100)" "[(80, 70), (50, 50)]" binary64,
        THEN conjunct2] h
    by (simp add: Let_def initialState_def exampleRect_def shape_def r)
qed

text \<open>
  C10. In a drawing gesture (as in C4) the provisional shape made at pointer-down has the
  colour \<open>#ffff00\<close> when the tool is the highlight tool, whatever the toolbar colour is, and
  the toolbar colour for the rect and arrow tools; the committed shape has that same colour
  and the kind of the tool; the toolbar colour is the same after pointer-down and after the
  whole gesture as before. This holds with exact arithmetic and for every rounding \<open>rnd\<close>
  of the arithmetic.
\<close>

theorem drawn_shape_color:
  assumes "interactionMode s = NoInteraction" and "tool s = Shape t"
    and "t = Rect \<or> t = Highlight \<or> t = Arrow"
    and "newId \<notin> ann_id ` set (annotations s)"
  shows "(let d = dispatch (handleMouseDown p0 None newId) s;
              s' = drawGesture (\<lambda>v. v) p0 ps newId s;
              p = last (p0 # ps);
              c = (if t = Highlight then ''#ffff00'' else color s)
          in map_option cur_color (currentAnnotation d) = Some c
           \<and> map_option cur_type (currentAnnotation d) = Some t
           \<and> color d = color s
           \<and> color s' = color s
           \<and> (if \<bar>fst p - fst p0\<bar> > 5 \<or> \<bar>snd p - snd p0\<bar> > 5
              then length (annotations s') = Suc (length (annotations s))
                 \<and> ann_color (last (annotations s')) = c
                 \<and> ann_type (last (annotations s')) = t
              else annotations s' = annotations s))
       \<and> (let s' = drawGesture rnd p0 ps newId s;
               w = (if ps = [] then 0 else rnd (fst (last ps) - fst p0));
               h = (if ps = [] then 0 else rnd (snd (last ps) - snd p0));
               c = (if t = Highlight then ''#ffff00'' else color s)
           in color s' = color s
            \<and> (if \<bar>w\<bar> > 5 \<or> \<bar>h\<bar> > 5
               then length (annotations s') = Suc (length (annotations s))
                  \<and> ann_color (last (annotations s')) = c
                  \<and> ann_type (last (annotations s')) = t
               else annotations s' = annotations s))"
proof -
  have dt: "drawingTool t" using assms(3) by (simp add: drawingTool_def)
  have e: "fst (drawnExtent rnd p0 ps) = (if ps = [] then 0 else rnd (fst (last ps) - fst p0))"
    "snd (drawnExtent rnd p0 ps) = (if ps = [] then 0 else rnd (snd (last ps) - snd p0))"
    by (simp_all add: drawnExtent_def)
  show ?thesis
    unfolding drawGesture_result [OF assms(1,2) dt assms(4)]
      down_drawing [OF assms(1,2) dt] drawnExtent_exact e Let_def
    by (simp add: shape_def drawing_def)
qed

text \<open>With the toolbar colour \<open>#ef4444\<close>, a highlight drawn from \<open>(100, 100)\<close> to \<open>(50, 50)\<close>
  is yellow and the toolbar colour stays \<open>#ef4444\<close>.\<close>

theorem drawn_shape_color_witness:
  "(let s = (initialState [exampleRect])\<lparr>tool := Shape Highlight\<rparr>;
        s' = drawGesture binary64 (100, 100) [(50, 50)] ''n1'' s
    in interactionMode s = NoInteraction \<and> tool s = Shape Highlight
     \<and> ''n1'' \<notin> ann_id ` set (annotations s)
     \<and> color s = ''#ef4444''
     \<and> ann_color (last (annotations s')) = ''#ffff00''
     \<and> ann_type (last (annotations s')) = Highlight
     \<and> color s' = ''#ef4444'')"
proof -
  let ?s = "(initialState [exampleRect])\<lparr>tool := Shape Highlight\<rparr>"
  have h: "interactionMode ?s = NoInteraction" "tool ?s = Shape Highlight"
    "Highlight = Rect \<or> Highlight = Highlight \<or> Highlight = Arrow"
    "''n1'' \<notin> ann_id ` set (annotations ?s)"
    by (simp_all add: initialState_def exampleRect_def shape_def)
  have r: "binary64 (- 50) = - 50"
    by (simp add: binary64_eval)
  show ?thesis
    using drawn_shape_color [OF h, of "(100, 100)" "[(50, 50)]" binary64, THEN conjunct2] h
    by (simp add: Let_def initialState_def exampleRect_def shape_def r)
qed

subsection \<open>Moving\<close>






















section \<open>Properties of the renderers\<close>

subsection \<open>The angle of a vector\<close>










subsection \<open>The arrow of the export flattener\<close>






subsection \<open>The alpha of a highlight\<close>

lemma highlight_targets:
  assumes "ann_type a = Highlight"
  shows "renderAnnotation page z a =
           \<lparr>el_left = boxX (normalizeBox a) / pg_originalWidth page * 100,
            el_top = boxY (normalizeBox a) / pg_originalHeight page * 100,
            el_width = Some (boxW (normalizeBox a) / pg_originalWidth page * 100),
            el_height = Some (boxH (normalizeBox a) / pg_originalHeight page * 100),
            el_content = HighlightDiv (ann_color a) 0.3\<rparr>"
    and "thumbnailAnnotation page a =
           Some \<lparr>el_left = boxX (normalizeBox a) / pg_originalWidth page * 100,
                 el_top = boxY (normalizeBox a) / pg_originalHeight page * 100,
                 el_width = Some (boxW (normalizeBox a) / pg_originalWidth page * 100),
                 el_height = Some (boxH (normalizeBox a) / pg_originalHeight page * 100),
                 el_content = HighlightDiv (ann_color a) 0.3\<rparr>"
    and "exportDrawAnn il a =
           Some [FillRect (ann_color a) 0.4 (boxX (normalizeBox a)) (boxY (normalizeBox a))
                   (boxW (normalizeBox a)) (boxH (normalizeBox a))]"
  using assms
  by (simp_all add: renderAnnotation_def renderContent_def thumbnailAnnotation_def
      exportDrawAnn_def Let_def)

text \<open>
  C1. The highlight with box \<open>(100, 100, -50, -50)\<close> and colour \<open>#ffff00\<close> on a 600 by 800
  page: the editor overlay and the grid thumbnail overlay fill its normalized box (left
  \<open>50/600\<close>, top \<open>50/800\<close>, width \<open>50/600\<close>, height \<open>50/800\<close> of the page, in percent) with
  opacity \<open>0.3\<close>; the export flattener fills the normalized box \<open>(50, 50, 50, 50)\<close> with
  alpha \<open>0.4\<close>. The three targets do not use one and the same constant.
\<close>

theorem highlight_alpha_differs:
  "renderAnnotation examplePage 0.8 exampleHighlight =
     \<lparr>el_left = 25 / 3, el_top = 25 / 4, el_width = Some (25 / 3), el_height = Some (25 / 4),
      el_content = HighlightDiv ''#ffff00'' 0.3\<rparr>
   \<and> thumbnailAnnotation examplePage exampleHighlight =
       Some \<lparr>el_left = 25 / 3, el_top = 25 / 4, el_width = Some (25 / 3),
             el_height = Some (25 / 4), el_content = HighlightDiv ''#ffff00'' 0.3\<rparr>
   \<and> exportDrawAnn (\<lambda>u. True) exampleHighlight = Some [FillRect ''#ffff00'' 0.4 50 50 50 50]
   \<and> hl_opacity (el_content (renderAnnotation examplePage 0.8 exampleHighlight))
       \<noteq> fr_globalAlpha (hd (the (exportDrawAnn (\<lambda>u. True) exampleHighlight)))"
proof -
  have t: "ann_type exampleHighlight = Highlight" and c: "ann_color exampleHighlight = ''#ffff00''"
    by (simp_all add: exampleHighlight_def shape_def)
  have b: "boxX (normalizeBox exampleHighlight) = 50" "boxY (normalizeBox exampleHighlight) = 50"
    "boxW (normalizeBox exampleHighlight) = 50" "boxH (normalizeBox exampleHighlight) = 50"
    by (simp_all add: normalizeBox_fields exampleHighlight_def shape_def numOr_def)
  have p: "pg_originalWidth examplePage = 600" "pg_originalHeight examplePage = 800"
    by (simp_all add: examplePage_def)
  show ?thesis
    by (simp add: highlight_targets [OF t] c b p)
qed

section \<open>Properties of ingestion, rotation and export\<close>

subsection \<open>One page of the export\<close>

lemma exportPage_resolved:
  assumes "sources (pg_sourcePdfId p) = Some src"
    and "pdflibParse env (readBytes (src_data src) w) = Some srcPages"
    and "exportPage env sources p (m, w) = Resolved (m', w')"
  shows "pg_pageIndex p < length srcPages"
    and "length (m_pages m') = Suc (length (m_pages m))"
    and "pp_rotation (last (m_pages m')) = pp_rotation (srcPages ! pg_pageIndex p) + pg_rotation p"
    and "pp_content (last (m_pages m')) = pp_content (srcPages ! pg_pageIndex p)"
  using assms
  by (auto simp: exportPage_def pdfLibLoad_def Let_def split: if_splits option.splits)


lemma exportPage_no_annotations:
  assumes "pg_annotations p = []"
    and "sources (pg_sourcePdfId p) = Some src"
    and "pdflibParse env (readBytes (src_data src) w) = Some srcPages"
    and "pg_pageIndex p < length srcPages"
  shows "exportPage env sources p (m, w) =
     Resolved (m\<lparr>m_pages := m_pages m @
                  [(srcPages ! pg_pageIndex p)
                     \<lparr>pp_rotation := pp_rotation (srcPages ! pg_pageIndex p) + pg_rotation p\<rparr>]\<rparr>,
               w\<lparr>calls := calls w @ [PdfLibLoad (src_data src)]\<rparr>)"
  using assms
  by (simp add: exportPage_def pdfLibLoad_def Let_def)

text \<open>A page with annotations, by contrast, gets one embedded image, drawn over it.\<close>

lemma exportPage_with_annotations:
  assumes "pg_annotations p \<noteq> []" and "canvasContext env"
    and "sources (pg_sourcePdfId p) = Some src"
    and "exportPage env sources p (m, w) = Resolved (m', w')"
  shows "length (m_images m') = Suc (length (m_images m))"
    and "di_image (last (pp_drawn (last (m_pages m')))) = last (m_images m')"
  using assms
  by (auto simp: exportPage_def pdfLibLoad_def Let_def split: if_splits option.splits)

lemma exportPage_images:
  assumes "pg_annotations p = []" and "exportPage env sources p (m, w) = Resolved (m', w')"
  shows "m_images m' = m_images m"
  using assms
  by (auto simp: exportPage_def pdfLibLoad_def Let_def split: if_splits option.splits)

lemma exportPages_images:
  assumes "\<forall>p \<in> set pages. pg_annotations p = []"
    and "exportPages env sources pages mw = Resolved mw'"
  shows "m_images (fst mw') = m_images (fst mw)"
  using assms
proof (induction pages arbitrary: mw)
  case Nil
  then show ?case by simp
next
  case (Cons p pages)
  from Cons.prems(2) obtain mw1 where 1: "exportPage env sources p mw = Resolved mw1"
    and 2: "exportPages env sources pages mw1 = Resolved mw'"
    by (auto split: outcome.splits)
  have "m_images (fst mw1) = m_images (fst mw)"
    using exportPage_images [of p env sources "fst mw" "snd mw" "fst mw1" "snd mw1"] 1 Cons.prems(1)
    by simp
  moreover have "m_images (fst mw') = m_images (fst mw1)"
    using Cons.IH [OF _ 2] Cons.prems(1) by simp
  ultimately show ?case by simp
qed



text \<open>
  C9. A page whose annotation list is empty, whose source document is registered and
  parses, and whose index is a page of it: the export step adds to the output document the
  source page with only its rotation changed (content and drawn images as in the source),
  embeds no image, and draws nothing. When every page is such a page, the exported document
  has no embedded image at all.
\<close>

theorem pages_without_annotations_copied:
  assumes "pg_annotations pageData = []"
    and "sources (pg_sourcePdfId pageData) = Some source"
    and "pdflibParse env (readBytes (src_data source) w) = Some srcPages"
    and "pg_pageIndex pageData < length srcPages"
  shows "exportPage env sources pageData (m, w) =
           Resolved (m\<lparr>m_pages := m_pages m @
                        [(srcPages ! pg_pageIndex pageData)
                           \<lparr>pp_rotation := pp_rotation (srcPages ! pg_pageIndex pageData)
                                             + pg_rotation pageData\<rparr>]\<rparr>,
                     w\<lparr>calls := calls w @ [PdfLibLoad (src_data source)]\<rparr>)
       \<and> ((\<forall>p \<in> set pages. pg_annotations p = [])
            \<and> generateFinalPDF env pages sources w0 = Resolved (doc, w1)
          \<longrightarrow> m_images doc = [])"
proof (intro conjI impI)
  show "exportPage env sources pageData (m, w) =
           Resolved (m\<lparr>m_pages := m_pages m @
                        [(srcPages ! pg_pageIndex pageData)
                           \<lparr>pp_rotation := pp_rotation (srcPages ! pg_pageIndex pageData)
                                             + pg_rotation pageData\<rparr>]\<rparr>,
                     w\<lparr>calls := calls w @ [PdfLibLoad (src_data source)]\<rparr>)"
    using assms by (rule exportPage_no_annotations)
next
  assume a: "(\<forall>p \<in> set pages. pg_annotations p = [])
            \<and> generateFinalPDF env pages sources w0 = Resolved (doc, w1)"
  then have "exportPages env sources pages (\<lparr>m_pages = [], m_images = []\<rparr>, w0) = Resolved (doc, w1)"
    by (simp add: generateFinalPDF_def)
  from exportPages_images [OF _ this] a show "m_images doc = []" by simp
qed

text \<open>The second page of the example document, which has no annotations, is exported as
  the source page itself.\<close>

theorem pages_without_annotations_copied_witness:
  "pg_annotations (examplePages ! 1) = []
   \<and> exampleSources (pg_sourcePdfId (examplePages ! 1)) = Some exampleSource
   \<and> pdflibParse exampleEnv (readBytes (src_data exampleSource) loadedWorld) = Some examplePdfPages
   \<and> pg_pageIndex (examplePages ! 1) < length examplePdfPages
   \<and> map pg_annotations examplePages = [[], []]
   \<and> exportPage exampleEnv exampleSources (examplePages ! 1) (emptyPdf, loadedWorld) =
       Resolved (\<lparr>m_pages = [examplePdfPages ! 1], m_images = []\<rparr>,
                 loadedWorld\<lparr>calls := [GetDocument 1, PdfLibLoad 0]\<rparr>)
   \<and> generateFinalPDF exampleEnv examplePages exampleSources loadedWorld =
       Resolved (\<lparr>m_pages = examplePdfPages, m_images = []\<rparr>,
                 loadedWorld\<lparr>calls := [GetDocument 1, PdfLibLoad 0, PdfLibLoad 0]\<rparr>)"
proof -
  have h: "pg_annotations (examplePages ! 1) = []"
    "exampleSources (pg_sourcePdfId (examplePages ! 1)) = Some exampleSource"
    "pdflibParse exampleEnv (readBytes (src_data exampleSource) loadedWorld) = Some examplePdfPages"
    "pg_pageIndex (examplePages ! 1) < length examplePdfPages"
    by (simp_all add: examplePages_def exampleSources_def exampleSource_def exampleEnv_def
        readBytes_def loadedWorld_def examplePdfPages_def)
  have a: "\<forall>p \<in> set examplePages. pg_annotations p = []"
    by (simp add: examplePages_def)
  have g: "generateFinalPDF exampleEnv examplePages exampleSources loadedWorld =
       Resolved (\<lparr>m_pages = examplePdfPages, m_images = []\<rparr>,
                 loadedWorld\<lparr>calls := [GetDocument 1, PdfLibLoad 0, PdfLibLoad 0]\<rparr>)"
    by (simp add: generateFinalPDF_def exportPage_def pdfLibLoad_def readBytes_def
        exampleEnv_def examplePages_def exampleSources_def exampleSource_def loadedWorld_def
        examplePdfPages_def Let_def)
  note t = pages_without_annotations_copied [where sources = exampleSources
      and env = exampleEnv and pageData = "examplePages ! 1" and source = exampleSource
      and w = loadedWorld and srcPages = examplePdfPages and m = emptyPdf
      and pages = examplePages and ?w0.0 = loadedWorld
      and doc = "\<lparr>m_pages = examplePdfPages, m_images = []\<rparr>"
      and ?w1.0 = "loadedWorld\<lparr>calls := [GetDocument 1, PdfLibLoad 0, PdfLibLoad 0]\<rparr>",
      OF h]
  have e: "exportPage exampleEnv exampleSources (examplePages ! 1) (emptyPdf, loadedWorld) =
       Resolved (\<lparr>m_pages = [examplePdfPages ! 1], m_images = []\<rparr>,
                 loadedWorld\<lparr>calls := [GetDocument 1, PdfLibLoad 0]\<rparr>)"
    unfolding t [THEN conjunct1]
    by (simp add: emptyPdf_def examplePages_def examplePdfPages_def exampleSource_def
        loadedWorld_def)
  have "m_images \<lparr>m_pages = examplePdfPages, m_images = []\<rparr> = []"
    by (rule t [THEN conjunct2, rule_format]) (simp add: a g)
  moreover have "map pg_annotations examplePages = [[], []]"
    by (simp add: examplePages_def)
  ultimately show ?thesis using h e g by simp
qed

subsection \<open>Buffers handed to the parsers\<close>

lemma convertImage_world:
  assumes "convertImage env f r w = (Some (r', name), w')"
  shows "r' = length (heap w)"
    and "\<exists>bs. heap w' = heap w @ [\<lparr>buf_bytes = bs, buf_detached = False\<rparr>]"
    and "\<exists>cs. calls w' = calls w @ cs \<and> (\<forall>c \<in> set cs. callArg c = r)"
  using assms
  by (auto simp: convertImage_def alloc_def Let_def split: if_splits option.splits prod.splits)

lemma copy_and_parse:
  assumes "r < length (heap w)" "\<not> buf_detached (heap w ! r)"
    and "slice0 r w = Some (copy, w1)" and "getDocument env copy w1 = (pdf, w2)"
  shows "copy = length (heap w)"
    and "heap w2 = heap w @ [\<lparr>buf_bytes = [], buf_detached = True\<rparr>]"
    and "calls w2 = calls w @ [GetDocument (length (heap w))]"
    and "pdf = pdfjsParse env (buf_bytes (heap w ! r))"
  using assms
  by (auto simp: slice0_def alloc_def getDocument_def detach_def readBytes_def)

lemma loadPDF_resolved:
  assumes "loadPDF env uuids f w = (Resolved (src, pages), w')"
  shows "src_data src < length (heap w')"
    and "\<not> buf_detached (heap w' ! src_data src)"
    and "length (heap w) \<le> src_data src"
    and "\<exists>cs r. calls w' = calls w @ cs @ [GetDocument r]
           \<and> (\<forall>c \<in> set cs. callArg c \<noteq> src_data src)
           \<and> r \<noteq> src_data src \<and> r = length (heap w') - 1 \<and> buf_detached (heap w' ! r)"
    and "\<forall>p \<in> set pages. pg_rotation p = 0 \<and> pg_annotations p = []"
proof -
  let ?w1 = "w\<lparr>heap := heap w @ [\<lparr>buf_bytes = file_bytes f, buf_detached = False\<rparr>]\<rparr>"
  let ?r0 = "length (heap w)"
  let ?conv = "startsWith ''image/'' (file_type f) \<or> hasImageExtension (file_name f)"
  obtain converted w2 where c: "(if ?conv \<and> file_type f \<noteq> ''application/pdf''
             then convertImage env f ?r0 ?w1
             else (Some (?r0, file_name f), ?w1)) = (converted, w2)"
    by (cases "(if ?conv \<and> file_type f \<noteq> ''application/pdf''
             then convertImage env f ?r0 ?w1
             else (Some (?r0, file_name f), ?w1))") auto
  from assms c obtain ab name where conv: "converted = Some (ab, name)"
    by (auto simp: loadPDF_def alloc_def Let_def split: option.splits)
  have ab: "ab < length (heap w2) \<and> \<not> buf_detached (heap w2 ! ab) \<and> ?r0 \<le> ab
      \<and> (\<exists>cs. calls w2 = calls w @ cs \<and> (\<forall>c \<in> set cs. callArg c \<noteq> ab))"
  proof (cases "?conv \<and> file_type f \<noteq> ''application/pdf''")
    case True
    with c conv have ci: "convertImage env f ?r0 ?w1 = (Some (ab, name), w2)" by simp
    from convertImage_world [OF ci] show ?thesis by (auto simp: nth_append)
  next
    case False
    with c conv show ?thesis by (auto simp: nth_append)
  qed
  from assms c conv obtain copy w3 pdf w4 sizes where
    sl: "slice0 ab w2 = Some (copy, w3)" and gd: "getDocument env copy w3 = (pdf, w4)"
    and res: "pdf = Some sizes" "w' = w4" "src_data src = ab"
    and pg: "pages = map (\<lambda>i. \<lparr>pg_id = uuids (Suc i), pg_sourcePdfId = uuids 0,
                     pg_pageIndex = i, pg_rotation = 0,
                     pg_thumbnailUrl = rasterize env (readBytes copy w3) i 0.5 0,
                     pg_originalWidth = fst (sizes ! i) * 0.5 * 2,
                     pg_originalHeight = snd (sizes ! i) * 0.5 * 2,
                     pg_annotations = []\<rparr>) [0..<length sizes]"
    by (auto simp: loadPDF_def alloc_def Let_def split: option.splits prod.splits)
  from ab have a1: "ab < length (heap w2)" and a2: "\<not> buf_detached (heap w2 ! ab)" by simp_all
  note cp = copy_and_parse [OF a1 a2 sl gd]
  show "src_data src < length (heap w')" using res cp(2) a1 by simp
  show "\<not> buf_detached (heap w' ! src_data src)" using res cp(2) a1 a2 by (simp add: nth_append)
  show "length (heap w) \<le> src_data src" using res ab by simp
  show "\<forall>p \<in> set pages. pg_rotation p = 0 \<and> pg_annotations p = []" using pg by auto
  from ab obtain cs where cs: "calls w2 = calls w @ cs" "\<forall>c \<in> set cs. callArg c \<noteq> ab" by blast
  show "\<exists>cs r. calls w' = calls w @ cs @ [GetDocument r]
           \<and> (\<forall>c \<in> set cs. callArg c \<noteq> src_data src)
           \<and> r \<noteq> src_data src \<and> r = length (heap w') - 1 \<and> buf_detached (heap w' ! r)"
    using res cp(2,3) cs a1
    by (intro exI [of _ cs] exI [of _ "length (heap w2)"]) (simp add: nth_append)
qed



lemma load_example:
  "loadPDF exampleEnv exampleUuids exampleFile emptyWorld
     = (Resolved (exampleSource, examplePages), loadedWorld)"
  by (simp add: loadPDF_def exampleEnv_def exampleUuids_def exampleFile_def emptyWorld_def
      exampleSource_def examplePages_def loadedWorld_def alloc_def slice0_def getDocument_def
      detach_def readBytes_def startsWith_def hasImageExtension_def endsWith_def
      toLowerCase_def toLowerChar_def Let_def upt_rec)





subsection \<open>Rotation\<close>

lemma jsRem_nonneg: "0 \<le> a \<Longrightarrow> jsRem a 360 = a mod 360"
  by (cases "a = 0") (simp_all add: jsRem_def)

lemma rotateSelected_nth:
  assumes "j < length pages"
  shows "rotateSelected sel pages ! j =
     (if pg_id (pages ! j) \<in> sel
      then (pages ! j)\<lparr>pg_rotation := jsRem (pg_rotation (pages ! j) + 90) 360\<rparr>
      else pages ! j)"
  using assms by (simp add: rotateSelected_def)

lemma rotateSelected_length: "length (rotateSelected sel pages) = length pages"
  by (simp add: rotateSelected_def)

lemma rotate_thrice:
  assumes "i < length pages" "pg_id (pages ! i) \<in> sel" "pg_rotation (pages ! i) = 0"
  shows "rotateSelected sel (rotateSelected sel (rotateSelected sel pages)) ! i
         = (pages ! i)\<lparr>pg_rotation := 270\<rparr>"
  using assms
  by (simp add: rotateSelected_nth rotateSelected_length jsRem_def)

text \<open>The export step always ends for a page whose source page exists and whose images
  load, and so does the export of a document of such pages.\<close>

lemma exportDrawAll_loads:
  assumes "imagesLoad env anns"
  shows "\<exists>ops. exportDrawAll (imageLoads env) anns = Some ops"
  using assms
proof (induction anns)
  case Nil
  show ?case by simp
next
  case (Cons a anns)
  then obtain rest where rest: "exportDrawAll (imageLoads env) anns = Some rest"
    by (auto simp: imagesLoad_def)
  from Cons.prems have "\<exists>ops. exportDrawAnn (imageLoads env) a = Some ops"
    by (simp add: imagesLoad_def exportDrawAnn_def Let_def)
  then show ?case using rest by auto
qed

lemma exportPage_total:
  assumes "sources (pg_sourcePdfId p) = Some src"
    and "pdflibParse env (readBytes (src_data src) w) = Some srcPages"
    and "pg_pageIndex p < length srcPages"
    and "imagesLoad env (pg_annotations p)"
  shows "\<exists>m' pg. exportPage env sources p (m, w)
                    = Resolved (m', w\<lparr>calls := calls w @ [PdfLibLoad (src_data src)]\<rparr>)
               \<and> m_pages m' = m_pages m @ [pg]
               \<and> pp_rotation pg = pp_rotation (srcPages ! pg_pageIndex p) + pg_rotation p"
proof -
  from exportDrawAll_loads [OF assms(4)]
  obtain ops where "exportDrawAll (imageLoads env) (pg_annotations p) = Some ops" ..
  then show ?thesis
    using assms(1-3) by (simp add: exportPage_def pdfLibLoad_def Let_def)
qed

lemma sourcePage_heap:
  assumes "heap w' = heap w"
  shows "sourcePage env sources w' q = sourcePage env sources w q"
proof -
  have "readBytes r w' = readBytes r w" for r
    using assms by (simp add: readBytes_def)
  then show ?thesis
    by (simp add: sourcePage_def cong: option.case_cong)
qed

lemma sourcePage_Some:
  assumes "sourcePage env sources w q = Some pg"
  obtains src srcPages where "sources (pg_sourcePdfId q) = Some src"
    and "pdflibParse env (readBytes (src_data src) w) = Some srcPages"
    and "pg_pageIndex q < length srcPages" and "pg = srcPages ! pg_pageIndex q"
  using assms by (auto simp: sourcePage_def split: option.splits if_splits)

lemma exportPages_total:
  assumes "\<forall>q \<in> set doc. sourcePage env sources w q \<noteq> None \<and> imagesLoad env (pg_annotations q)"
  shows "\<exists>m' w'. exportPages env sources doc (m, w) = Resolved (m', w')
               \<and> heap w' = heap w
               \<and> map pp_rotation (m_pages m') =
                   map pp_rotation (m_pages m)
                   @ map (\<lambda>q. pp_rotation (the (sourcePage env sources w q)) + pg_rotation q) doc"
  using assms
proof (induction doc arbitrary: m w)
  case Nil
  show ?case by simp
next
  case (Cons q doc)
  from Cons.prems obtain pg where pg: "sourcePage env sources w q = Some pg"
    and il: "imagesLoad env (pg_annotations q)"
    by auto
  from pg obtain src srcPages where src: "sources (pg_sourcePdfId q) = Some src"
    "pdflibParse env (readBytes (src_data src) w) = Some srcPages"
    "pg_pageIndex q < length srcPages" "pg = srcPages ! pg_pageIndex q"
    by (rule sourcePage_Some)
  let ?w1 = "w\<lparr>calls := calls w @ [PdfLibLoad (src_data src)]\<rparr>"
  have "\<exists>m' pg'. exportPage env sources q (m, w)
                    = Resolved (m', w\<lparr>calls := calls w @ [PdfLibLoad (src_data src)]\<rparr>)
               \<and> m_pages m' = m_pages m @ [pg']
               \<and> pp_rotation pg' = pp_rotation (srcPages ! pg_pageIndex q) + pg_rotation q"
    using src(1-3) il by (rule exportPage_total)
  then obtain m1 pg1 where 1: "exportPage env sources q (m, w) = Resolved (m1, ?w1)"
    and 2: "m_pages m1 = m_pages m @ [pg1]"
    and 3: "pp_rotation pg1 = pp_rotation (srcPages ! pg_pageIndex q) + pg_rotation q"
    by blast
  have hp: "heap ?w1 = heap w" by simp
  have same: "sourcePage env sources ?w1 = sourcePage env sources w"
    by (rule ext) (rule sourcePage_heap [OF hp])
  have "\<forall>r \<in> set doc. sourcePage env sources ?w1 r \<noteq> None \<and> imagesLoad env (pg_annotations r)"
    using Cons.prems unfolding same by simp
  from Cons.IH [OF this, of m1]
  obtain m' w' where 4: "exportPages env sources doc (m1, ?w1) = Resolved (m', w')"
    and 5: "heap w' = heap ?w1"
    and 6: "map pp_rotation (m_pages m') =
              map pp_rotation (m_pages m1)
              @ map (\<lambda>q. pp_rotation (the (sourcePage env sources ?w1 q)) + pg_rotation q) doc"
    by blast
  have "exportPages env sources (q # doc) (m, w) = Resolved (m', w')"
    using 1 4 by simp
  moreover have "heap w' = heap w" using 5 by simp
  moreover have "map pp_rotation (m_pages m') =
       map pp_rotation (m_pages m)
       @ map (\<lambda>q. pp_rotation (the (sourcePage env sources w q)) + pg_rotation q) (q # doc)"
    unfolding 6 same 2 using 3 pg src(4) by simp
  ultimately show ?case by blast
qed

text \<open>
  C7. Every page of a freshly loaded document has the stored rotation 0. A rotate action
  keeps the pages and their order; a selected page whose stored rotation
  is not negative gets the rotation \<open>(rotation + 90) mod 360\<close> and is otherwise unchanged; a
  page that is not selected is unchanged. A selected page with stored rotation 0 has the
  stored rotation 270 after three rotate actions. The export step of a page whose source is
  registered and parses, whose index is a page of the source, and whose images load, ends:
  it adds one page to the output, with the rotation of the source page plus the stored
  rotation; for the stored rotation 270 that is the source rotation plus 270, also modulo
  360. The export of a document in which every page is such a page ends too, and its pages
  have, in order, the rotation of their source page plus their stored rotation.
\<close>

theorem rotation_is_added_on_export:
  assumes "sources (pg_sourcePdfId p) = Some src"
    and "pdflibParse env (readBytes (src_data src) w) = Some srcPages"
    and "pg_pageIndex p < length srcPages"
    and "imagesLoad env (pg_annotations p)"
    and "\<forall>q \<in> set doc. sourcePage env sources w q \<noteq> None \<and> imagesLoad env (pg_annotations q)"
  shows "(loadPDF env uuids f w0 = (Resolved (src0, pages0), w1)
            \<longrightarrow> (\<forall>q \<in> set pages0. pg_rotation q = 0))
       \<and> map pg_id (rotateSelected sel pages) = map pg_id pages
       \<and> (\<forall>j < length pages.
            rotateSelected sel pages ! j =
              (if pg_id (pages ! j) \<in> sel
               then (pages ! j)\<lparr>pg_rotation := jsRem (pg_rotation (pages ! j) + 90) 360\<rparr>
               else pages ! j))
       \<and> (\<forall>j < length pages. pg_id (pages ! j) \<in> sel \<and> 0 \<le> pg_rotation (pages ! j)
            \<longrightarrow> pg_rotation (rotateSelected sel pages ! j) = (pg_rotation (pages ! j) + 90) mod 360)
       \<and> (i < length pages \<and> pg_id (pages ! i) \<in> sel \<and> pg_rotation (pages ! i) = 0
            \<longrightarrow> pg_rotation (rotateSelected sel (rotateSelected sel (rotateSelected sel pages)) ! i)
                  = 270)
       \<and> (\<exists>m' w'. exportPage env sources p (m, w) = Resolved (m', w')
            \<and> length (m_pages m') = Suc (length (m_pages m))
            \<and> pp_rotation (last (m_pages m'))
                = pp_rotation (srcPages ! pg_pageIndex p) + pg_rotation p
            \<and> (pg_rotation p = 270
                 \<longrightarrow> pp_rotation (last (m_pages m'))
                       = pp_rotation (srcPages ! pg_pageIndex p) + 270
                   \<and> pp_rotation (last (m_pages m')) mod 360
                       = (pp_rotation (srcPages ! pg_pageIndex p) + 270) mod 360))
       \<and> (\<exists>m' w'. generateFinalPDF env doc sources w = Resolved (m', w')
            \<and> map pp_rotation (m_pages m')
                = map (\<lambda>q. pp_rotation (the (sourcePage env sources w q)) + pg_rotation q) doc)"
proof (intro conjI)
  show "loadPDF env uuids f w0 = (Resolved (src0, pages0), w1)
            \<longrightarrow> (\<forall>q \<in> set pages0. pg_rotation q = 0)"
  proof
    assume "loadPDF env uuids f w0 = (Resolved (src0, pages0), w1)"
    from loadPDF_resolved(5) [OF this] show "\<forall>q \<in> set pages0. pg_rotation q = 0" by blast
  qed
next
  show "map pg_id (rotateSelected sel pages) = map pg_id pages"
    by (simp add: rotateSelected_def comp_def)
next
  show "\<forall>j < length pages.
            rotateSelected sel pages ! j =
              (if pg_id (pages ! j) \<in> sel
               then (pages ! j)\<lparr>pg_rotation := jsRem (pg_rotation (pages ! j) + 90) 360\<rparr>
               else pages ! j)"
    by (intro allI impI) (rule rotateSelected_nth)
next
  show "\<forall>j < length pages. pg_id (pages ! j) \<in> sel \<and> 0 \<le> pg_rotation (pages ! j)
            \<longrightarrow> pg_rotation (rotateSelected sel pages ! j) = (pg_rotation (pages ! j) + 90) mod 360"
    by (simp add: rotateSelected_nth jsRem_nonneg)
next
  show "i < length pages \<and> pg_id (pages ! i) \<in> sel \<and> pg_rotation (pages ! i) = 0
            \<longrightarrow> pg_rotation (rotateSelected sel (rotateSelected sel (rotateSelected sel pages)) ! i)
                  = 270"
    by (simp add: rotate_thrice)
next
  have "\<exists>m' pg. exportPage env sources p (m, w)
                    = Resolved (m', w\<lparr>calls := calls w @ [PdfLibLoad (src_data src)]\<rparr>)
               \<and> m_pages m' = m_pages m @ [pg]
               \<and> pp_rotation pg = pp_rotation (srcPages ! pg_pageIndex p) + pg_rotation p"
    using assms(1-4) by (rule exportPage_total)
  then obtain m' pg where 1: "exportPage env sources p (m, w)
                    = Resolved (m', w\<lparr>calls := calls w @ [PdfLibLoad (src_data src)]\<rparr>)"
    and 2: "m_pages m' = m_pages m @ [pg]"
    and 3: "pp_rotation pg = pp_rotation (srcPages ! pg_pageIndex p) + pg_rotation p"
    by blast
  have "length (m_pages m') = Suc (length (m_pages m))"
    and "pp_rotation (last (m_pages m')) = pp_rotation (srcPages ! pg_pageIndex p) + pg_rotation p"
    using 2 3 by simp_all
  then show "\<exists>m' w'. exportPage env sources p (m, w) = Resolved (m', w')
            \<and> length (m_pages m') = Suc (length (m_pages m))
            \<and> pp_rotation (last (m_pages m'))
                = pp_rotation (srcPages ! pg_pageIndex p) + pg_rotation p
            \<and> (pg_rotation p = 270
                 \<longrightarrow> pp_rotation (last (m_pages m'))
                       = pp_rotation (srcPages ! pg_pageIndex p) + 270
                   \<and> pp_rotation (last (m_pages m')) mod 360
                       = (pp_rotation (srcPages ! pg_pageIndex p) + 270) mod 360)"
    using 1 by auto
next
  from exportPages_total [OF assms(5), of "\<lparr>m_pages = [], m_images = []\<rparr>"]
  show "\<exists>m' w'. generateFinalPDF env doc sources w = Resolved (m', w')
            \<and> map pp_rotation (m_pages m')
                = map (\<lambda>q. pp_rotation (the (sourcePage env sources w q)) + pg_rotation q) doc"
    unfolding generateFinalPDF_def by auto
qed

text \<open>The second page of the example document has the source rotation 90 and carries a
  rectangle. Rotated three times it has the stored rotation 270; it is exported with the
  rotation 360 and the drawn rectangle, and the document with the rotations 0 and 360.\<close>

theorem rotation_is_added_on_export_witness:
  "(let rotated = rotateSelected {''p2''} (rotateSelected {''p2''}
                    (rotateSelected {''p2''} exampleAnnotated));
        overlay = \<lparr>r_width = 600, r_height = 800,
                   r_ops = [StrokeRect ''#ef4444'' 4 10 10 50 40]\<rparr>;
        second = \<lparr>pp_rotation = 360, pp_width = 600, pp_height = 800, pp_content = ''two'',
                  pp_drawn = [\<lparr>di_image = overlay, di_x = 0, di_y = 0,
                                di_width = 600, di_height = 800\<rparr>]\<rparr>
    in loadPDF exampleEnv exampleUuids exampleFile emptyWorld
         = (Resolved (exampleSource, examplePages), loadedWorld)
     \<and> map pg_rotation examplePages = [0, 0]
     \<and> (1::nat) < length exampleAnnotated \<and> pg_id (exampleAnnotated ! 1) \<in> {''p2''}
     \<and> pg_rotation (exampleAnnotated ! 1) = 0
     \<and> exampleSources (pg_sourcePdfId (rotated ! 1)) = Some exampleSource
     \<and> pdflibParse exampleEnv (readBytes (src_data exampleSource) loadedWorld) = Some examplePdfPages
     \<and> pg_pageIndex (rotated ! 1) < length examplePdfPages
     \<and> map (\<lambda>q. map ann_type (pg_annotations q)) rotated = [[], [Rect]]
     \<and> map (sourcePage exampleEnv exampleSources loadedWorld) rotated
         = [Some (examplePdfPages ! 0), Some (examplePdfPages ! 1)]
     \<and> map pg_rotation rotated = [0, 270]
     \<and> pg_rotation (rotated ! 1) = 270
     \<and> pp_rotation (examplePdfPages ! 1) = 90
     \<and> exportPage exampleEnv exampleSources (rotated ! 1) (emptyPdf, loadedWorld) =
         Resolved (\<lparr>m_pages = [second], m_images = [overlay]\<rparr>,
                   loadedWorld\<lparr>calls := [GetDocument 1, PdfLibLoad 0]\<rparr>)
     \<and> generateFinalPDF exampleEnv rotated exampleSources loadedWorld =
         Resolved (\<lparr>m_pages = [examplePdfPages ! 0, second], m_images = [overlay]\<rparr>,
                   loadedWorld\<lparr>calls := [GetDocument 1, PdfLibLoad 0, PdfLibLoad 0]\<rparr>))"
proof -
  let ?rotated = "rotateSelected {''p2''} (rotateSelected {''p2''}
                    (rotateSelected {''p2''} exampleAnnotated))"
  let ?overlay = "\<lparr>r_width = 600, r_height = 800,
                   r_ops = [StrokeRect ''#ef4444'' 4 10 10 50 40]\<rparr>"
  let ?second = "\<lparr>pp_rotation = 360, pp_width = 600, pp_height = 800, pp_content = ''two'',
                  pp_drawn = [\<lparr>di_image = ?overlay, di_x = 0, di_y = 0,
                                di_width = 600, di_height = 800\<rparr>]\<rparr>"
  have r: "?rotated = [examplePages ! 0,
                       (examplePages ! 1)\<lparr>pg_rotation := 270, pg_annotations := [exampleRect]\<rparr>]"
    by (simp add: rotateSelected_def exampleAnnotated_def examplePages_def jsRem_def)
  have d: "exportDrawAll (imageLoads exampleEnv) [exampleRect]
           = Some [StrokeRect ''#ef4444'' 4 10 10 50 40]"
    by (simp add: exportDrawAnn_def normalizeBox_def numOr_def exampleRect_def shape_def Let_def)
  have h: "exampleSources (pg_sourcePdfId (?rotated ! 1)) = Some exampleSource"
    "pdflibParse exampleEnv (readBytes (src_data exampleSource) loadedWorld) = Some examplePdfPages"
    "pg_pageIndex (?rotated ! 1) < length examplePdfPages"
    "imagesLoad exampleEnv (pg_annotations (?rotated ! 1))"
    "\<forall>q \<in> set ?rotated. sourcePage exampleEnv exampleSources loadedWorld q \<noteq> None
                          \<and> imagesLoad exampleEnv (pg_annotations q)"
    unfolding r
    by (simp_all add: examplePages_def exampleSources_def exampleSource_def exampleEnv_def
        readBytes_def loadedWorld_def examplePdfPages_def imagesLoad_def sourcePage_def
        exampleRect_def shape_def)
  have e: "exportPage exampleEnv exampleSources (?rotated ! 1) (emptyPdf, loadedWorld) =
         Resolved (\<lparr>m_pages = [?second], m_images = [?overlay]\<rparr>,
                   loadedWorld\<lparr>calls := [GetDocument 1, PdfLibLoad 0]\<rparr>)"
    unfolding r
    by (simp add: examplePages_def exampleSources_def exampleSource_def exampleEnv_def
        readBytes_def loadedWorld_def examplePdfPages_def exportPage_def pdfLibLoad_def
        emptyPdf_def Let_def d [unfolded exampleEnv_def, simplified])
  have g: "generateFinalPDF exampleEnv ?rotated exampleSources loadedWorld =
         Resolved (\<lparr>m_pages = [examplePdfPages ! 0, ?second], m_images = [?overlay]\<rparr>,
                   loadedWorld\<lparr>calls := [GetDocument 1, PdfLibLoad 0, PdfLibLoad 0]\<rparr>)"
    unfolding r
    by (simp add: generateFinalPDF_def examplePages_def exampleSources_def exampleSource_def
        exampleEnv_def readBytes_def loadedWorld_def examplePdfPages_def exportPage_def
        pdfLibLoad_def Let_def d [unfolded exampleEnv_def, simplified])
  have s: "(1::nat) < length exampleAnnotated" "pg_id (exampleAnnotated ! 1) \<in> {''p2''}"
    "pg_rotation (exampleAnnotated ! 1) = 0" "pp_rotation (examplePdfPages ! 1) = 90"
    by (simp_all add: exampleAnnotated_def examplePages_def examplePdfPages_def)
  have v: "map (\<lambda>q. map ann_type (pg_annotations q)) ?rotated = [[], [Rect]]"
    "map (sourcePage exampleEnv exampleSources loadedWorld) ?rotated
         = [Some (examplePdfPages ! 0), Some (examplePdfPages ! 1)]"
    "map pg_rotation ?rotated = [0, 270]"
    unfolding r
    by (simp_all add: examplePages_def exampleSources_def exampleSource_def exampleEnv_def
        readBytes_def loadedWorld_def examplePdfPages_def sourcePage_def exampleRect_def shape_def)
  note t = rotation_is_added_on_export [where sources = exampleSources
      and env = exampleEnv and p = "?rotated ! 1" and src = exampleSource
      and w = loadedWorld and srcPages = examplePdfPages and m = emptyPdf
      and doc = ?rotated and sel = "{''p2''}" and pages = exampleAnnotated and i = 1
      and uuids = exampleUuids and f = exampleFile and ?w0.0 = emptyWorld
      and src0 = exampleSource and pages0 = examplePages and ?w1.0 = loadedWorld,
      OF h]
  have z: "\<forall>q \<in> set examplePages. pg_rotation q = 0"
    by (rule t [THEN conjunct1, THEN mp]) (rule load_example)
  have "pg_rotation (?rotated ! 1) = 270"
    by (rule t [THEN conjunct2, THEN conjunct2, THEN conjunct2, THEN conjunct2,
          THEN conjunct1, rule_format]) (intro conjI s)
  moreover have "map pg_rotation examplePages = [0, 0]"
    using z by (simp add: examplePages_def)
  ultimately show ?thesis
    unfolding Let_def using h(1-3) s load_example e g v by (intro conjI)
qed

end
